theory Spec2Isabelle
  imports Complex_Main
begin

section \<open>Python values used by the import and export code\<close>

text \<open>
  The theory embeds \<^verbatim>\<open>fitness_tracker/data_utils.py\<close>, the two model classes
  \<^verbatim>\<open>Workout\<close> and \<^verbatim>\<open>Exercise\<close> of \<^verbatim>\<open>models.py\<close> and the
  \<^verbatim>\<open>post_save\<close> receivers of \<^verbatim>\<open>signals.py\<close> that write to the database.

  Python integers are \<open>int\<close>. Python floats are read as the rationals they denote: the
  rounding of binary64 and the values \<^verbatim>\<open>inf\<close> and \<^verbatim>\<open>nan\<close> are not part of the
  model. Strings are lists of characters with code points below 256.
\<close>

datatype exn = ValueError | KeyError | IndexError | TypeError | AttributeError

text \<open>Sequencing of computations that may raise: the first exception wins.\<close>

definition try_bind :: "exn + 'a \<Rightarrow> ('a \<Rightarrow> exn + 'b) \<Rightarrow> exn + 'b" where
  "try_bind m f = (case m of Inl e \<Rightarrow> Inl e | Inr x \<Rightarrow> f x)"

subsection \<open>Strings\<close>

text \<open>\<^verbatim>\<open>str.isspace\<close> on one character, for the code points below 256.\<close>

definition py_isspace :: "char \<Rightarrow> bool" where
  "py_isspace c \<longleftrightarrow> c \<in> set [CHR 0x09, CHR 0x0A, CHR 0x0B, CHR 0x0C, CHR 0x0D,
     CHR 0x1C, CHR 0x1D, CHR 0x1E, CHR 0x1F, CHR 0x20, CHR 0x85, CHR 0xA0]"

definition py_strip :: "string \<Rightarrow> string" where
  "py_strip s = rev (dropWhile py_isspace (rev (dropWhile py_isspace s)))"

definition startswith :: "string \<Rightarrow> string \<Rightarrow> bool" where
  "startswith s p \<longleftrightarrow> take (length p) s = p"

text \<open>\<^verbatim>\<open>s.split(sep)\<close> with a one-character separator: never an empty list.\<close>

fun py_split :: "char \<Rightarrow> string \<Rightarrow> string list" where
  "py_split sep [] = [[]]"
| "py_split sep (c # cs) =
     (if c = sep then [] # py_split sep cs
      else (case py_split sep cs of
              [] \<Rightarrow> [[c]]
            | p # ps \<Rightarrow> (c # p) # ps))"

subsection \<open>Numerals\<close>

definition is_digit :: "char \<Rightarrow> bool" where
  "is_digit c \<longleftrightarrow> c \<in> set ''0123456789''"

text \<open>The value of a digit: its position among the ten digits.\<close>

definition digit_val :: "char \<Rightarrow> nat" where
  "digit_val c = length (takeWhile (\<lambda>d. d \<noteq> c) ''0123456789'')"

text \<open>The value of a string of decimal digits, most significant digit first.\<close>

definition decimal :: "string \<Rightarrow> nat" where
  "decimal ds = foldl (\<lambda>acc c. 10 * acc + digit_val c) 0 ds"

text \<open>
  Python's \<^verbatim>\<open>digitpart\<close>: digits, with single underscores allowed between two digits.
\<close>

fun digitpart_from :: "bool \<Rightarrow> string \<Rightarrow> bool" where
  "digitpart_from after_digit [] = after_digit"
| "digitpart_from after_digit (c # cs) =
     (if is_digit c then digitpart_from True cs
      else if c = CHR ''_'' \<and> after_digit then digitpart_from False cs
      else False)"

definition digitpart :: "string \<Rightarrow> bool" where
  "digitpart s \<longleftrightarrow> digitpart_from False s"

definition digitpart_val :: "string \<Rightarrow> nat" where
  "digitpart_val s = decimal (filter (\<lambda>c. c \<noteq> CHR ''_'') s)"

text \<open>An optional sign in front of the rest of a numeral.\<close>

definition split_sign :: "string \<Rightarrow> bool \<times> string" where
  "split_sign s =
     (case s of
        [] \<Rightarrow> (False, [])
      | c # cs \<Rightarrow> if c = CHR ''-'' then (True, cs)
                else if c = CHR ''+'' then (False, cs)
                else (False, s))"

text \<open>\<^verbatim>\<open>int(s)\<close> for a string: surrounding whitespace, a sign, a digitpart.\<close>

definition py_int :: "string \<Rightarrow> exn + int" where
  "py_int s =
     (case split_sign (py_strip s) of
        (neg, body) \<Rightarrow>
          if digitpart body
          then Inr (if neg then - int (digitpart_val body) else int (digitpart_val body))
          else Inl ValueError)"

text \<open>\<^verbatim>\<open>int(x)\<close> for a float: truncation towards zero.\<close>

definition py_int_of_float :: "rat \<Rightarrow> int" where
  "py_int_of_float x = (if 0 \<le> x then \<lfloor>x\<rfloor> else \<lceil>x\<rceil>)"

text \<open>
  \<^verbatim>\<open>float(s)\<close> for a string: surrounding whitespace, a sign, a decimal mantissa with
  an optional point, an optional exponent. The spellings of infinity and not-a-number
  that Python also accepts have no rational value and are read as malformed here.
\<close>

definition break_at :: "(char \<Rightarrow> bool) \<Rightarrow> string \<Rightarrow> string \<times> string option" where
  "break_at P s =
     (takeWhile (\<lambda>c. \<not> P c) s,
      case dropWhile (\<lambda>c. \<not> P c) s of [] \<Rightarrow> None | _ # r \<Rightarrow> Some r)"

definition float_mantissa :: "string \<Rightarrow> rat option" where
  "float_mantissa m =
     (case break_at (\<lambda>c. c = CHR ''.'') m of
        (ip, None) \<Rightarrow> if digitpart ip then Some (of_nat (digitpart_val ip)) else None
      | (ip, Some fp) \<Rightarrow>
          if (ip = [] \<or> digitpart ip) \<and> (fp = [] \<or> digitpart fp) \<and> \<not> (ip = [] \<and> fp = [])
          then Some (of_nat (digitpart_val ip)
                     + of_nat (digitpart_val fp)
                       / 10 ^ length (filter (\<lambda>c. c \<noteq> CHR ''_'') fp))
          else None)"

definition float_exponent :: "string option \<Rightarrow> rat option" where
  "float_exponent ex =
     (case ex of
        None \<Rightarrow> Some 1
      | Some t \<Rightarrow>
          (case split_sign t of
             (neg, ds) \<Rightarrow>
               if digitpart ds
               then Some (if neg then 1 / 10 ^ digitpart_val ds else 10 ^ digitpart_val ds)
               else None))"

definition py_float :: "string \<Rightarrow> exn + rat" where
  "py_float s =
     (case split_sign (py_strip s) of
        (neg, body) \<Rightarrow>
          (case break_at (\<lambda>c. c = CHR ''e'' \<or> c = CHR ''E'') body of
             (m, ex) \<Rightarrow>
               (case (float_mantissa m, float_exponent ex) of
                  (Some v, Some k) \<Rightarrow> Inr (if neg then - (v * k) else v * k)
                | _ \<Rightarrow> Inl ValueError)))"

subsection \<open>Dates\<close>

text \<open>A \<^verbatim>\<open>datetime.date\<close>: year, month, day.\<close>

datatype pydate = Date (year: nat) (month: nat) (day: nat)

definition is_leap :: "nat \<Rightarrow> bool" where
  "is_leap y \<longleftrightarrow> y mod 4 = 0 \<and> (y mod 100 \<noteq> 0 \<or> y mod 400 = 0)"

definition days_in_month :: "nat \<Rightarrow> nat \<Rightarrow> nat" where
  "days_in_month y m =
     (if m = 2 then (if is_leap y then 29 else 28)
      else if m \<in> set [4, 6, 9, 11] then 30 else 31)"

text \<open>
  The directives of \<^verbatim>\<open>strptime\<close>: \<^verbatim>\<open>%Y\<close> is four digits, \<^verbatim>\<open>%m\<close> is
  \<^verbatim>\<open>1[0-2]|0[1-9]|[1-9]\<close>, \<^verbatim>\<open>%d\<close> is \<^verbatim>\<open>3[01]|[12]\d|0[1-9]|[1-9]| [1-9]\<close>.
\<close>

definition month_directive :: "string \<Rightarrow> nat option" where
  "month_directive t =
     (if (length t = 1 \<or> length t = 2) \<and> list_all is_digit t
         \<and> 1 \<le> decimal t \<and> decimal t \<le> 12
      then Some (decimal t) else None)"

definition day_directive :: "string \<Rightarrow> nat option" where
  "day_directive t =
     (if (length t = 1 \<or> length t = 2) \<and> list_all is_digit t
         \<and> 1 \<le> decimal t \<and> decimal t \<le> 31
      then Some (decimal t)
      else if length t = 2 \<and> hd t = CHR '' '' \<and> is_digit (t ! 1) \<and> t ! 1 \<noteq> CHR ''0''
      then Some (decimal (tl t))
      else None)"

text \<open>
  \<^verbatim>\<open>datetime.strptime(s, '%Y-%m-%d').date()\<close>: the whole string must match, and the
  date must exist (years 1 to 9999).
\<close>

definition strptime_date :: "string \<Rightarrow> exn + pydate" where
  "strptime_date s =
     (if length s < 5 \<or> \<not> list_all is_digit (take 4 s) \<or> s ! 4 \<noteq> CHR ''-''
      then Inl ValueError
      else
        (case break_at (\<lambda>c. c = CHR ''-'') (drop 5 s) of
           (mt, None) \<Rightarrow> Inl ValueError
         | (mt, Some dt) \<Rightarrow>
             (case (month_directive mt, day_directive dt) of
                (Some m, Some d) \<Rightarrow>
                  let y = decimal (take 4 s)
                  in if 1 \<le> y \<and> d \<le> days_in_month y m then Inr (Date y m d)
                     else Inl ValueError
              | _ \<Rightarrow> Inl ValueError)))"

text \<open>\<^verbatim>\<open>d.strftime('%Y-%m-%d')\<close>, for the four-digit years.\<close>

definition digit_char :: "nat \<Rightarrow> char" where
  "digit_char n = ''0123456789'' ! (n mod 10)"

definition pad2 :: "nat \<Rightarrow> string" where
  "pad2 n = [digit_char (n div 10), digit_char n]"

definition strftime_date :: "pydate \<Rightarrow> string" where
  "strftime_date d =
     pad2 (year d div 100) @ pad2 (year d) @ ''-'' @ pad2 (month d) @ ''-'' @ pad2 (day d)"

section \<open>The Record Store\<close>

text \<open>
  The two tables the import code writes. A row is the record of its columns; the primary
  key of a workout is its position in the table, so the table is in creation order and
  a new row takes the next key. The timestamps \<^verbatim>\<open>created_at\<close> and
  \<^verbatim>\<open>updated_at\<close> are read by nothing here but the ordering, which creation order
  gives. Rows removed by other parts of the application are outside this model.

  \<^verbatim>\<open>objects.create\<close> and \<^verbatim>\<open>save\<close> run no validator and never call
  \<^verbatim>\<open>clean\<close>: Django runs them from \<^verbatim>\<open>full_clean\<close> only, which model forms
  call and \<^verbatim>\<open>data_utils.py\<close> never does. Column constraints of the database
  itself belong to the collaborator and are not modelled.
\<close>

record Workout =
  user_id :: nat
  name :: string
  workout_type :: string
  date :: pydate
  duration :: int
  calories_burned :: int
  workout_notes :: string

record Exercise =
  workout_id :: nat
  exercise_name :: string
  category :: string
  sets :: int
  reps :: int
  weight :: rat
  rest_time :: int
  exercise_notes :: string

record Store =
  fitness_workouts :: "Workout list"
  fitness_exercises :: "Exercise list"

text \<open>
  A model instance in memory: the primary key and the attribute values. The attributes
  are a copy: a later update of the row does not change them.
\<close>

type_synonym Workout_instance = "nat \<times> Workout"

subsection \<open>models.py: the validation rules\<close>

text \<open>\<^verbatim>\<open>Exercise.clean\<close>: \<open>True\<close> when the method raises its ValidationError.\<close>

definition Exercise_clean_raises :: "Exercise \<Rightarrow> bool" where
  "Exercise_clean_raises e \<longleftrightarrow> weight e > 0 \<and> reps e > 100"

subsection \<open>signals.py: the receivers that write\<close>

definition calorie_rates :: "(string \<times> rat) list" where
  "calorie_rates =
     [(''cardio'', 8), (''strength'', 6), (''flexibility'', 3),
      (''sports'', 7), (''mixed'', 6), (''other'', 5)]"

text \<open>\<^verbatim>\<open>Workout.objects.filter(pk=pk).update(calories_burned=c)\<close>: sends no signal.\<close>

definition update_calories_burned :: "nat \<Rightarrow> int \<Rightarrow> Store \<Rightarrow> Store" where
  "update_calories_burned pk c st =
     (if pk < length (fitness_workouts st)
      then st\<lparr>fitness_workouts :=
             (fitness_workouts st)[pk := (fitness_workouts st ! pk)\<lparr>calories_burned := c\<rparr>]\<rparr>
      else st)"

definition auto_calculate_calories :: "Workout_instance \<Rightarrow> bool \<Rightarrow> Store \<Rightarrow> Store" where
  "auto_calculate_calories inst created st =
     (case inst of (pk, instance) \<Rightarrow>
        if calories_burned instance = 0 \<or> created
        then
          let rate = (case map_of calorie_rates (workout_type instance) of
                        Some r \<Rightarrow> r | None \<Rightarrow> 5);
              estimated_calories = py_int_of_float (of_int (duration instance) * rate)
          in if calories_burned instance = 0
             then update_calories_burned pk estimated_calories st
             else st
        else st)"

text \<open>
  The other receivers of a workout's \<^verbatim>\<open>post_save\<close>, \<^verbatim>\<open>check_workout_milestones\<close>
  and \<^verbatim>\<open>check_calories_milestones\<close>, only read the store and print.

  \<^verbatim>\<open>instance.save()\<close> of a workout that has a row: the row takes the attribute
  values of the instance, then \<^verbatim>\<open>post_save\<close> is sent with \<^verbatim>\<open>created=False\<close>.
\<close>

definition Workout_save :: "Workout_instance \<Rightarrow> Store \<Rightarrow> Store" where
  "Workout_save inst st =
     auto_calculate_calories inst False
       (st\<lparr>fitness_workouts := (fitness_workouts st)[fst inst := snd inst]\<rparr>)"

text \<open>\<^verbatim>\<open>Workout.objects.create(**fields)\<close>: insert, then \<^verbatim>\<open>post_save\<close> with \<^verbatim>\<open>created=True\<close>.\<close>

definition Workout_objects_create :: "Workout \<Rightarrow> Store \<Rightarrow> Workout_instance \<times> Store" where
  "Workout_objects_create w st =
     (let pk = length (fitness_workouts st)
      in ((pk, w),
          auto_calculate_calories (pk, w) True
            (st\<lparr>fitness_workouts := fitness_workouts st @ [w]\<rparr>)))"

text \<open>
  \<^verbatim>\<open>Exercise.objects.create(workout=workout, ...)\<close>: insert, then the receiver
  \<^verbatim>\<open>update_workout_on_exercise_change\<close> saves \<^verbatim>\<open>instance.workout\<close>, which is the
  workout instance the caller passed.
\<close>

definition Exercise_objects_create :: "Workout_instance \<Rightarrow> Exercise \<Rightarrow> Store \<Rightarrow> Store" where
  "Exercise_objects_create workout e st =
     Workout_save workout (st\<lparr>fitness_exercises := fitness_exercises st @ [e]\<rparr>)"

text \<open>\<^verbatim>\<open>workout.exercises.all().delete()\<close>.\<close>

definition delete_exercises :: "Workout_instance \<Rightarrow> Store \<Rightarrow> Store" where
  "delete_exercises workout st =
     st\<lparr>fitness_exercises := filter (\<lambda>e. workout_id e \<noteq> fst workout) (fitness_exercises st)\<rparr>"

text \<open>
  \<^verbatim>\<open>Workout.objects.filter(user=user, name=name, date=date).first()\<close>. The model's
  ordering is \<^verbatim>\<open>['-date', '-created_at']\<close> and all matches have the same date, so
  the first match is the one created last.
\<close>

fun find_last :: "('a \<Rightarrow> bool) \<Rightarrow> 'a list \<Rightarrow> nat option" where
  "find_last P [] = None"
| "find_last P (x # xs) =
     (case find_last P xs of
        Some i \<Rightarrow> Some (Suc i)
      | None \<Rightarrow> if P x then Some 0 else None)"

definition same_key :: "nat \<Rightarrow> string \<Rightarrow> pydate \<Rightarrow> Workout \<Rightarrow> bool" where
  "same_key u nm d w \<longleftrightarrow> user_id w = u \<and> name w = nm \<and> date w = d"

definition Workout_filter_first :: "nat \<Rightarrow> string \<Rightarrow> pydate \<Rightarrow> Store \<Rightarrow> Workout_instance option" where
  "Workout_filter_first u nm d st =
     (case find_last (same_key u nm d) (fitness_workouts st) of
        None \<Rightarrow> None
      | Some pk \<Rightarrow> Some (pk, fitness_workouts st ! pk))"

section \<open>The import functions of data utils\<close>

text \<open>
  The parsed forms of the payloads. \<^verbatim>\<open>csv.DictReader\<close> yields one dictionary per
  data row, from column name to cell text; a row is the list of its items. The value
  of \<^verbatim>\<open>json.loads\<close> is a tree. Reading the bytes into these forms is the work
  of Python's \<^verbatim>\<open>csv\<close> and \<^verbatim>\<open>json\<close> modules; the import functions below start
  from their results.
\<close>

type_synonym row = "(string \<times> string) list"

datatype json =
    JNull
  | JBool bool
  | JInt int
  | JFloat rat
  | JStr string
  | JArr "json list"
  | JObj "(string \<times> json) list"

text \<open>
  The messages of the ValidationErrors the import functions raise, each with the
  locator its text carries, and the exceptions no \<^verbatim>\<open>except\<close> clause catches.
\<close>

datatype message =
    Invalid_CSV_data row exn
  | Invalid_JSON_format
  | Invalid_JSON_data json exn
  | Workout_line_too_short nat
  | Exercise_without_workout nat
  | Exercise_line_too_short nat
  | Line_invalid_format nat exn

datatype error = ValidationError message | Uncaught exn

record import_result =
  imported :: nat
  exercises :: nat

type_synonym 'a outcome = "(error + 'a) \<times> Store"

text \<open>
  A \<^verbatim>\<open>for\<close> loop whose body may raise: the exception ends the loop and leaves the
  function, and the store keeps what was written until then, since no transaction is
  opened anywhere.
\<close>

fun for_each :: "('r \<Rightarrow> 'a \<Rightarrow> Store \<Rightarrow> 'a outcome) \<Rightarrow> 'r list \<Rightarrow> 'a \<Rightarrow> Store \<Rightarrow> 'a outcome" where
  "for_each body [] acc st = (Inr acc, st)"
| "for_each body (r # rs) acc st =
     (case body r acc st of
        (Inl e, st') \<Rightarrow> (Inl e, st')
      | (Inr acc', st') \<Rightarrow> for_each body rs acc' st')"

definition return_counts :: "(nat \<times> nat) outcome \<Rightarrow> import_result outcome" where
  "return_counts out =
     (case out of
        (Inl e, st) \<Rightarrow> (Inl e, st)
      | (Inr (imported_workouts, imported_exercises), st) \<Rightarrow>
          (Inr \<lparr>imported = imported_workouts, exercises = imported_exercises\<rparr>, st))"

subsection \<open>The create-or-update step the three functions share\<close>

text \<open>
  \<^verbatim>\<open>for key, value in workout_data.items(): setattr(existing_workout, key, value)\<close>
\<close>

definition set_workout_fields :: "Workout \<Rightarrow> Workout \<Rightarrow> Workout" where
  "set_workout_fields existing workout_data =
     existing\<lparr>name := name workout_data,
              workout_type := workout_type workout_data,
              duration := duration workout_data,
              calories_burned := calories_burned workout_data,
              workout_notes := workout_notes workout_data,
              date := date workout_data\<rparr>"

text \<open>
  \<^verbatim>\<open>if existing_workout and overwrite_existing: ... else: ...\<close>. The result is the
  workout instance, the increment of the workout counter and the store. Only the JSON
  and the text function delete the exercises of an overwritten workout
  (\<open>clear_exercises\<close>).
\<close>

definition store_workout ::
  "bool \<Rightarrow> bool \<Rightarrow> Workout_instance option \<Rightarrow> Workout \<Rightarrow> Store \<Rightarrow> Workout_instance \<times> nat \<times> Store" where
  "store_workout overwrite_existing clear_exercises existing_workout workout_data st =
     (case existing_workout of
        Some existing \<Rightarrow>
          if overwrite_existing
          then
            let workout = (fst existing, set_workout_fields (snd existing) workout_data);
                st1 = Workout_save workout st
            in (workout, 0, if clear_exercises then delete_exercises workout st1 else st1)
          else
            (case Workout_objects_create workout_data st of
               (workout, st1) \<Rightarrow> (workout, 1, st1))
      | None \<Rightarrow>
          (case Workout_objects_create workout_data st of
             (workout, st1) \<Rightarrow> (workout, 1, st1)))"

text \<open>
  The lookup in front of it:
  \<^verbatim>\<open>existing_workout = None\<close>, then
  \<^verbatim>\<open>if not overwrite_existing: existing_workout = Workout.objects.filter(...).first()\<close>.
\<close>

definition lookup_existing :: "nat \<Rightarrow> string \<Rightarrow> pydate \<Rightarrow> bool \<Rightarrow> Store \<Rightarrow> Workout_instance option" where
  "lookup_existing user nm workout_date overwrite_existing st =
     (if \<not> overwrite_existing then Workout_filter_first user nm workout_date st else None)"

subsection \<open>The CSV import\<close>

definition row_item :: "row \<Rightarrow> string \<Rightarrow> exn + string" where
  "row_item r k = (case map_of r k of None \<Rightarrow> Inl KeyError | Some v \<Rightarrow> Inr v)"

definition row_get :: "row \<Rightarrow> string \<Rightarrow> string \<Rightarrow> string" where
  "row_get r k dflt = (case map_of r k of None \<Rightarrow> dflt | Some v \<Rightarrow> v)"

text \<open>\<^verbatim>\<open>int(row.get(k, n))\<close> and \<^verbatim>\<open>float(row.get(k, n))\<close> with a number as default.\<close>

definition row_get_int :: "row \<Rightarrow> string \<Rightarrow> int \<Rightarrow> exn + int" where
  "row_get_int r k dflt = (case map_of r k of None \<Rightarrow> Inr dflt | Some v \<Rightarrow> py_int v)"

definition row_get_float :: "row \<Rightarrow> string \<Rightarrow> rat \<Rightarrow> exn + rat" where
  "row_get_float r k dflt = (case map_of r k of None \<Rightarrow> Inr dflt | Some v \<Rightarrow> py_float v)"

definition csv_workout_data :: "nat \<Rightarrow> row \<Rightarrow> pydate \<Rightarrow> exn + Workout" where
  "csv_workout_data user r workout_date =
     try_bind (row_item r ''name'') (\<lambda>nm.
     try_bind (try_bind (row_item r ''duration'') py_int) (\<lambda>dur.
     try_bind (row_get_int r ''calories_burned'' 0) (\<lambda>cal.
     Inr \<lparr>user_id = user, name = nm,
          workout_type = row_get r ''workout_type'' ''other'',
          date = workout_date, duration = dur, calories_burned = cal,
          workout_notes = row_get r ''notes'' ''''\<rparr>)))"

text \<open>
  The first half of the loop body, up to \<^verbatim>\<open>workout_data\<close>: it only reads. \<open>None\<close>
  is the \<^verbatim>\<open>continue\<close> of a row whose workout exists and is not overwritten.
\<close>

definition csv_resolve ::
  "nat \<Rightarrow> row \<Rightarrow> bool \<Rightarrow> Store \<Rightarrow> exn + (Workout_instance option \<times> Workout) option" where
  "csv_resolve user r overwrite_existing st =
     try_bind (try_bind (row_item r ''date'') strptime_date) (\<lambda>workout_date.
     try_bind (if \<not> overwrite_existing
               then try_bind (row_item r ''name'') (\<lambda>nm.
                      Inr (lookup_existing user nm workout_date overwrite_existing st))
               else Inr None) (\<lambda>existing_workout.
     if existing_workout \<noteq> None \<and> \<not> overwrite_existing then Inr None
     else try_bind (csv_workout_data user r workout_date) (\<lambda>workout_data.
            Inr (Some (existing_workout, workout_data)))))"

text \<open>
  \<^verbatim>\<open>if 'exercise_name' in row and row['exercise_name']:\<close> and the dictionary
  \<^verbatim>\<open>exercise_data\<close>; \<open>None\<close> when the row has no exercise.
\<close>

definition csv_exercise_data :: "row \<Rightarrow> nat \<Rightarrow> exn + Exercise option" where
  "csv_exercise_data r pk =
     (case map_of r ''exercise_name'' of
        None \<Rightarrow> Inr None
      | Some en \<Rightarrow>
          if en = [] then Inr None
          else
            try_bind (row_get_int r ''sets'' 1) (\<lambda>se.
            try_bind (row_get_int r ''reps'' 1) (\<lambda>re.
            try_bind (row_get_float r ''weight'' 0) (\<lambda>we.
            try_bind (row_get_int r ''rest_time'' 60) (\<lambda>rt.
            Inr (Some \<lparr>workout_id = pk, exercise_name = en,
                       category = row_get r ''category'' ''other'',
                       sets = se, reps = re, weight = we, rest_time = rt,
                       exercise_notes = row_get r ''exercise_notes'' ''''\<rparr>))))))"

text \<open>\<^verbatim>\<open>except (ValueError, KeyError) as e: raise ValidationError(...)\<close>\<close>

definition csv_except :: "row \<Rightarrow> exn \<Rightarrow> error" where
  "csv_except r e =
     (if e = ValueError \<or> e = KeyError then ValidationError (Invalid_CSV_data r e)
      else Uncaught e)"

definition csv_row :: "nat \<Rightarrow> bool \<Rightarrow> row \<Rightarrow> nat \<times> nat \<Rightarrow> Store \<Rightarrow> (nat \<times> nat) outcome" where
  "csv_row user overwrite_existing r acc st =
     (case csv_resolve user r overwrite_existing st of
        Inl e \<Rightarrow> (Inl (csv_except r e), st)
      | Inr None \<Rightarrow> (Inr acc, st)
      | Inr (Some (existing_workout, workout_data)) \<Rightarrow>
          (case store_workout overwrite_existing False existing_workout workout_data st of
             (workout, created, st1) \<Rightarrow>
               (case csv_exercise_data r (fst workout) of
                  Inl e \<Rightarrow> (Inl (csv_except r e), st1)
                | Inr None \<Rightarrow> (Inr (fst acc + created, snd acc), st1)
                | Inr (Some exercise) \<Rightarrow>
                    (Inr (fst acc + created, snd acc + 1),
                     Exercise_objects_create workout exercise st1))))"

definition import_csv_data :: "nat \<Rightarrow> row list \<Rightarrow> bool \<Rightarrow> Store \<Rightarrow> import_result outcome" where
  "import_csv_data user csv_reader overwrite_existing st =
     return_counts (for_each (csv_row user overwrite_existing) csv_reader (0, 0) st)"

subsection \<open>The JSON import\<close>

text \<open>
  \<^verbatim>\<open>d[k]\<close>, \<^verbatim>\<open>d.get(k, default)\<close> and \<^verbatim>\<open>for x in d\<close> on a JSON value. Only a
  dictionary has \<^verbatim>\<open>get\<close>; a list or a string subscripted with a key raises
  TypeError; iterating a dictionary yields its keys and iterating a string its
  characters.
\<close>

definition json_item :: "json \<Rightarrow> string \<Rightarrow> exn + json" where
  "json_item d k =
     (case d of
        JObj kvs \<Rightarrow> (case map_of kvs k of None \<Rightarrow> Inl KeyError | Some v \<Rightarrow> Inr v)
      | _ \<Rightarrow> Inl TypeError)"

definition json_get :: "json \<Rightarrow> string \<Rightarrow> json \<Rightarrow> exn + json" where
  "json_get d k dflt =
     (case d of
        JObj kvs \<Rightarrow> Inr (case map_of kvs k of None \<Rightarrow> dflt | Some v \<Rightarrow> v)
      | _ \<Rightarrow> Inl AttributeError)"

definition json_iter :: "json \<Rightarrow> exn + json list" where
  "json_iter d =
     (case d of
        JArr xs \<Rightarrow> Inr xs
      | JObj kvs \<Rightarrow> Inr (map (\<lambda>kv. JStr (fst kv)) kvs)
      | JStr s \<Rightarrow> Inr (map (\<lambda>c. JStr [c]) s)
      | _ \<Rightarrow> Inl TypeError)"

text \<open>
  The values handed to the model fields. The model covers the payloads whose scalars
  have the JSON type of their column (a string for a text column, an integer for an
  integer column, a number for \<^verbatim>\<open>weight\<close>); for a scalar of another type, where
  Django would coerce the value or fail inside the database layer, the model raises
  TypeError when the field values are handed over.
\<close>

definition as_str :: "json \<Rightarrow> exn + string" where
  "as_str v = (case v of JStr s \<Rightarrow> Inr s | _ \<Rightarrow> Inl TypeError)"

definition as_int :: "json \<Rightarrow> exn + int" where
  "as_int v = (case v of JInt n \<Rightarrow> Inr n | _ \<Rightarrow> Inl TypeError)"

definition as_float :: "json \<Rightarrow> exn + rat" where
  "as_float v = (case v of JInt n \<Rightarrow> Inr (of_int n) | JFloat x \<Rightarrow> Inr x | _ \<Rightarrow> Inl TypeError)"

definition json_workout_fields :: "nat \<Rightarrow> json \<Rightarrow> pydate \<Rightarrow> exn + Workout" where
  "json_workout_fields user workout_data workout_date =
     try_bind (json_item workout_data ''name'') (\<lambda>nm.
     try_bind (json_get workout_data ''workout_type'' (JStr ''other'')) (\<lambda>ty.
     try_bind (json_item workout_data ''duration'') (\<lambda>dur.
     try_bind (json_get workout_data ''calories_burned'' (JInt 0)) (\<lambda>cal.
     try_bind (json_get workout_data ''notes'' (JStr '''')) (\<lambda>nt.
     try_bind (as_str nm) (\<lambda>nm'.
     try_bind (as_str ty) (\<lambda>ty'.
     try_bind (as_int dur) (\<lambda>dur'.
     try_bind (as_int cal) (\<lambda>cal'.
     try_bind (as_str nt) (\<lambda>nt'.
     Inr \<lparr>user_id = user, name = nm', workout_type = ty', date = workout_date,
          duration = dur', calories_burned = cal', workout_notes = nt'\<rparr>))))))))))"

definition json_resolve ::
  "nat \<Rightarrow> json \<Rightarrow> bool \<Rightarrow> Store \<Rightarrow> exn + (Workout_instance option \<times> Workout) option" where
  "json_resolve user workout_data overwrite_existing st =
     try_bind (try_bind (try_bind (json_item workout_data ''date'') as_str) strptime_date)
       (\<lambda>workout_date.
     try_bind (if \<not> overwrite_existing
               then try_bind (try_bind (json_item workout_data ''name'') as_str) (\<lambda>nm.
                      Inr (lookup_existing user nm workout_date overwrite_existing st))
               else Inr None) (\<lambda>existing_workout.
     if existing_workout \<noteq> None \<and> \<not> overwrite_existing then Inr None
     else try_bind (json_workout_fields user workout_data workout_date) (\<lambda>workout_fields.
            Inr (Some (existing_workout, workout_fields)))))"

definition json_exercise_fields :: "json \<Rightarrow> nat \<Rightarrow> exn + Exercise" where
  "json_exercise_fields exercise_data pk =
     try_bind (json_item exercise_data ''exercise_name'') (\<lambda>en.
     try_bind (json_get exercise_data ''category'' (JStr ''other'')) (\<lambda>ca.
     try_bind (json_get exercise_data ''sets'' (JInt 1)) (\<lambda>se.
     try_bind (json_get exercise_data ''reps'' (JInt 1)) (\<lambda>re.
     try_bind (json_get exercise_data ''weight'' (JInt 0)) (\<lambda>we.
     try_bind (json_get exercise_data ''rest_time'' (JInt 60)) (\<lambda>rt.
     try_bind (json_get exercise_data ''notes'' (JStr '''')) (\<lambda>nt.
     try_bind (as_str en) (\<lambda>en'.
     try_bind (as_str ca) (\<lambda>ca'.
     try_bind (as_int se) (\<lambda>se'.
     try_bind (as_int re) (\<lambda>re'.
     try_bind (as_float we) (\<lambda>we'.
     try_bind (as_int rt) (\<lambda>rt'.
     try_bind (as_str nt) (\<lambda>nt'.
     Inr \<lparr>workout_id = pk, exercise_name = en', category = ca', sets = se', reps = re',
          weight = we', rest_time = rt', exercise_notes = nt'\<rparr>))))))))))))))"

text \<open>\<^verbatim>\<open>except (ValueError, KeyError) as e: raise ValidationError(...)\<close>\<close>

definition json_except :: "json \<Rightarrow> exn \<Rightarrow> error" where
  "json_except workout_data e =
     (if e = ValueError \<or> e = KeyError then ValidationError (Invalid_JSON_data workout_data e)
      else Uncaught e)"

text \<open>The body of the inner loop \<^verbatim>\<open>for exercise_data in exercises_data\<close>.\<close>

definition json_exercise :: "Workout_instance \<Rightarrow> json \<Rightarrow> json \<Rightarrow> nat \<Rightarrow> Store \<Rightarrow> nat outcome" where
  "json_exercise workout workout_data exercise_data imported_exercises st =
     (case json_exercise_fields exercise_data (fst workout) of
        Inl e \<Rightarrow> (Inl (json_except workout_data e), st)
      | Inr exercise \<Rightarrow>
          (Inr (imported_exercises + 1), Exercise_objects_create workout exercise st))"

definition json_workout :: "nat \<Rightarrow> bool \<Rightarrow> json \<Rightarrow> nat \<times> nat \<Rightarrow> Store \<Rightarrow> (nat \<times> nat) outcome" where
  "json_workout user overwrite_existing workout_data acc st =
     (case json_resolve user workout_data overwrite_existing st of
        Inl e \<Rightarrow> (Inl (json_except workout_data e), st)
      | Inr None \<Rightarrow> (Inr acc, st)
      | Inr (Some (existing_workout, workout_fields)) \<Rightarrow>
          (case store_workout overwrite_existing True existing_workout workout_fields st of
             (workout, created, st1) \<Rightarrow>
               (case try_bind (json_get workout_data ''exercises'' (JArr [])) json_iter of
                  Inl e \<Rightarrow> (Inl (json_except workout_data e), st1)
                | Inr exercises_data \<Rightarrow>
                    (case for_each (json_exercise workout workout_data) exercises_data
                            (snd acc) st1 of
                       (Inl e, st2) \<Rightarrow> (Inl e, st2)
                     | (Inr imported_exercises, st2) \<Rightarrow>
                         (Inr (fst acc + created, imported_exercises), st2)))))"

text \<open>
  The first argument is the result of \<^verbatim>\<open>json.loads(file_content)\<close>, \<open>None\<close> when it
  raises JSONDecodeError.
\<close>

definition import_json_data :: "nat \<Rightarrow> json option \<Rightarrow> bool \<Rightarrow> Store \<Rightarrow> import_result outcome" where
  "import_json_data user loaded overwrite_existing st =
     (case loaded of
        None \<Rightarrow> (Inl (ValidationError Invalid_JSON_format), st)
      | Some data \<Rightarrow>
          (case try_bind (json_get data ''workouts'' (JArr [])) json_iter of
             Inl e \<Rightarrow> (Inl (Uncaught e), st)
           | Inr workouts_data \<Rightarrow>
               return_counts
                 (for_each (json_workout user overwrite_existing) workouts_data (0, 0) st)))"

subsection \<open>The text import\<close>

definition text_workout_data ::
  "nat \<Rightarrow> string \<Rightarrow> string \<Rightarrow> string \<Rightarrow> string \<Rightarrow> string list \<Rightarrow> exn + Workout" where
  "text_workout_data user p0 p1 p2 p3 opt =
     try_bind (strptime_date p2) (\<lambda>workout_date.
     try_bind (py_int p3) (\<lambda>dur.
     try_bind (case opt of [] \<Rightarrow> Inr 0 | c # _ \<Rightarrow> py_int c) (\<lambda>calories.
     Inr \<lparr>user_id = user, name = p0, workout_type = p1, date = workout_date,
          duration = dur, calories_burned = calories,
          workout_notes = (case opt of _ # n # _ \<Rightarrow> n | _ \<Rightarrow> '''')\<rparr>)))"

definition text_exercise_data ::
  "nat \<Rightarrow> string \<Rightarrow> string \<Rightarrow> string \<Rightarrow> string \<Rightarrow> string list \<Rightarrow> exn + Exercise" where
  "text_exercise_data pk p0 p1 p2 p3 opt =
     try_bind (py_int p2) (\<lambda>se.
     try_bind (py_int p3) (\<lambda>re.
     try_bind (case opt of [] \<Rightarrow> Inr 0 | w # _ \<Rightarrow> py_float w) (\<lambda>we.
     try_bind (case opt of _ # t # _ \<Rightarrow> py_int t | _ \<Rightarrow> Inr 60) (\<lambda>rt.
     Inr \<lparr>workout_id = pk, exercise_name = p0, category = p1, sets = se, reps = re,
          weight = we, rest_time = rt,
          exercise_notes = (case opt of _ # _ # n # _ \<Rightarrow> n | _ \<Rightarrow> '''')\<rparr>))))"

text \<open>
  \<^verbatim>\<open>except (ValueError, IndexError) as e: raise ValidationError(...)\<close>. The
  ValidationErrors raised inside the \<^verbatim>\<open>try\<close> are neither and pass through.
\<close>

definition text_except :: "nat \<Rightarrow> exn \<Rightarrow> error" where
  "text_except line_num e =
     (if e = ValueError \<or> e = IndexError then ValidationError (Line_invalid_format line_num e)
      else Uncaught e)"

definition pipe_parts :: "string \<Rightarrow> string list" where
  "pipe_parts s = map py_strip (py_split (CHR ''|'') s)"

text \<open>
  The loop state: the active workout \<^verbatim>\<open>current_workout\<close> and the two counters.
\<close>

type_synonym text_state = "Workout_instance option \<times> nat \<times> nat"

definition text_workout :: "nat \<Rightarrow> bool \<Rightarrow> nat \<Rightarrow> string \<Rightarrow> text_state \<Rightarrow> Store \<Rightarrow> text_state outcome" where
  "text_workout user overwrite_existing line_num line acc st =
     (case pipe_parts (drop 8 line) of
        p0 # p1 # p2 # p3 # opt \<Rightarrow>
          (case text_workout_data user p0 p1 p2 p3 opt of
             Inl e \<Rightarrow> (Inl (text_except line_num e), st)
           | Inr workout_data \<Rightarrow>
               let existing_workout =
                     lookup_existing user (name workout_data) (date workout_data)
                       overwrite_existing st
               in if existing_workout \<noteq> None \<and> \<not> overwrite_existing
                  then (Inr (existing_workout, snd acc), st)
                  else
                    (case store_workout overwrite_existing True existing_workout
                            workout_data st of
                       (workout, created, st1) \<Rightarrow>
                         (Inr (Some workout, fst (snd acc) + created, snd (snd acc)), st1)))
      | _ \<Rightarrow> (Inl (ValidationError (Workout_line_too_short line_num)), st))"

definition text_exercise :: "nat \<Rightarrow> string \<Rightarrow> text_state \<Rightarrow> Store \<Rightarrow> text_state outcome" where
  "text_exercise line_num line acc st =
     (case fst acc of
        None \<Rightarrow> (Inl (ValidationError (Exercise_without_workout line_num)), st)
      | Some current_workout \<Rightarrow>
          (case pipe_parts (drop 9 line) of
             p0 # p1 # p2 # p3 # opt \<Rightarrow>
               (case text_exercise_data (fst current_workout) p0 p1 p2 p3 opt of
                  Inl e \<Rightarrow> (Inl (text_except line_num e), st)
                | Inr exercise \<Rightarrow>
                    (Inr (fst acc, fst (snd acc), snd (snd acc) + 1),
                     Exercise_objects_create current_workout exercise st))
           | _ \<Rightarrow> (Inl (ValidationError (Exercise_line_too_short line_num)), st)))"

text \<open>
  The loop body. A line that is neither blank, a comment, a workout line nor an
  exercise line matches no branch of the \<^verbatim>\<open>if\<close>/\<^verbatim>\<open>elif\<close> and nothing happens.
\<close>

definition text_line :: "nat \<Rightarrow> bool \<Rightarrow> nat \<times> string \<Rightarrow> text_state \<Rightarrow> Store \<Rightarrow> text_state outcome" where
  "text_line user overwrite_existing numbered acc st =
     (let line_num = fst numbered; line = py_strip (snd numbered)
      in if line = [] \<or> startswith line ''#'' then (Inr acc, st)
         else if startswith line ''WORKOUT:''
         then text_workout user overwrite_existing line_num line acc st
         else if startswith line ''EXERCISE:''
         then text_exercise line_num line acc st
         else (Inr acc, st))"

text \<open>\<^verbatim>\<open>enumerate(lines, 1)\<close>\<close>

definition enumerate1 :: "'a list \<Rightarrow> (nat \<times> 'a) list" where
  "enumerate1 xs = zip [1 ..< Suc (length xs)] xs"

definition import_text_data :: "nat \<Rightarrow> string \<Rightarrow> bool \<Rightarrow> Store \<Rightarrow> import_result outcome" where
  "import_text_data user file_content overwrite_existing st =
     (let lines = py_split (CHR 0x0A) (py_strip file_content)
      in case for_each (text_line user overwrite_existing) (enumerate1 lines) (None, 0, 0) st of
           (Inl e, st') \<Rightarrow> (Inl e, st')
         | (Inr (current_workout, imported_workouts, imported_exercises), st') \<Rightarrow>
             (Inr \<lparr>imported = imported_workouts, exercises = imported_exercises\<rparr>, st'))"

section \<open>The JSON export of data utils\<close>

text \<open>
  \<^verbatim>\<open>request.user.workouts.all().prefetch_related('exercises')\<close>: the user's workouts,
  newest date first and, within a date, newest row first; the exercises of a workout
  in creation order.
\<close>

definition date_ord :: "pydate \<Rightarrow> nat" where
  "date_ord d = year d * 10000 + month d * 100 + day d"

definition user_workouts :: "nat \<Rightarrow> Store \<Rightarrow> Workout_instance list" where
  "user_workouts user st =
     rev (sort_key (\<lambda>inst. date_ord (date (snd inst)))
            (filter (\<lambda>inst. user_id (snd inst) = user)
               (zip [0 ..< length (fitness_workouts st)] (fitness_workouts st))))"

definition workout_exercises :: "Workout_instance \<Rightarrow> Store \<Rightarrow> Exercise list" where
  "workout_exercises workout st =
     filter (\<lambda>e. workout_id e = fst workout) (fitness_exercises st)"

definition exercise_json :: "Exercise \<Rightarrow> json" where
  "exercise_json exercise =
     JObj [(''exercise_name'', JStr (exercise_name exercise)),
           (''category'', JStr (category exercise)),
           (''sets'', JInt (sets exercise)),
           (''reps'', JInt (reps exercise)),
           (''weight'', JFloat (weight exercise)),
           (''rest_time'', JInt (rest_time exercise)),
           (''notes'', JStr (exercise_notes exercise))]"

definition workout_json :: "Store \<Rightarrow> Workout_instance \<Rightarrow> json" where
  "workout_json st workout =
     JObj [(''name'', JStr (name (snd workout))),
           (''date'', JStr (strftime_date (date (snd workout)))),
           (''workout_type'', JStr (workout_type (snd workout))),
           (''duration'', JInt (duration (snd workout))),
           (''calories_burned'', JInt (calories_burned (snd workout))),
           (''notes'', JStr (workout_notes (snd workout))),
           (''exercises'', JArr (map exercise_json (workout_exercises workout st)))]"

text \<open>
  The dictionary \<^verbatim>\<open>data\<close> that \<^verbatim>\<open>export_json_data\<close> hands to \<^verbatim>\<open>json.dumps\<close>;
  \<^verbatim>\<open>json.loads\<close> of the response body gives it back.
\<close>

definition export_json_data :: "Workout_instance list \<Rightarrow> Store \<Rightarrow> json" where
  "export_json_data workouts st = JObj [(''workouts'', JArr (map (workout_json st) workouts))]"

section \<open>Concrete stores and payloads\<close>

text \<open>The inputs at which the theorems below are evaluated.\<close>

definition empty_store :: Store where
  "empty_store = \<lparr>fitness_workouts = [], fitness_exercises = []\<rparr>"


definition running :: Exercise where
  "running =
     \<lparr>workout_id = 0, exercise_name = ''Running'', category = ''cardio'', sets = 1,
      reps = 1, weight = 0, rest_time = 0, exercise_notes = ''''\<rparr>"

text \<open>Whether a user has a workout with the given name and date.\<close>

definition has_key :: "nat \<Rightarrow> string \<Rightarrow> pydate \<Rightarrow> Store \<Rightarrow> bool" where
  "has_key u nm d st \<longleftrightarrow> list_ex (same_key u nm d) (fitness_workouts st)"

text \<open>
  Whether the workout a CSV row names is in the store: the row has a date that parses
  and a name, and the user has a workout with that name and date.
\<close>

definition row_known :: "nat \<Rightarrow> Store \<Rightarrow> row \<Rightarrow> bool" where
  "row_known user st r =
     (case map_of r ''date'' of
        None \<Rightarrow> False
      | Some ds \<Rightarrow>
          (case strptime_date ds of
             Inl _ \<Rightarrow> False
           | Inr d \<Rightarrow>
               (case map_of r ''name'' of
                  None \<Rightarrow> False
                | Some nm \<Rightarrow> has_key user nm d st)))"

text \<open>A stored workout, and a CSV row with its name and date but other values.\<close>

definition leg_day :: Workout where
  "leg_day =
     \<lparr>user_id = 1, name = ''Leg Day'', workout_type = ''strength'',
      date = Date 2024 1 1, duration = 45, calories_burned = 270, workout_notes = ''''\<rparr>"

definition leg_day_store :: Store where
  "leg_day_store = \<lparr>fitness_workouts = [leg_day], fitness_exercises = []\<rparr>"

definition leg_day_row :: row where
  "leg_day_row =
     [(''date'', ''2024-01-01''), (''name'', ''Leg Day''), (''workout_type'', ''cardio''),
      (''duration'', ''60''), (''calories_burned'', ''500''), (''notes'', ''changed''),
      (''exercise_name'', ''Squat''), (''category'', ''legs''), (''sets'', ''3''),
      (''reps'', ''10''), (''weight'', ''80''), (''rest_time'', ''90''),
      (''exercise_notes'', '''')]"

text \<open>The store after \<open>leg_day_row\<close> is imported into the empty store.\<close>

definition leg_day_imported :: Store where
  "leg_day_imported =
     \<lparr>fitness_workouts =
        [\<lparr>user_id = 1, name = ''Leg Day'', workout_type = ''cardio'', date = Date 2024 1 1,
          duration = 60, calories_burned = 500, workout_notes = ''changed''\<rparr>],
      fitness_exercises =
        [\<lparr>workout_id = 0, exercise_name = ''Squat'', category = ''legs'', sets = 3,
          reps = 10, weight = 80, rest_time = 90, exercise_notes = ''''\<rparr>]\<rparr>"

text \<open>
  A payload of two rows: the exercise columns of the first do not parse, the second is
  a complete row for another workout.
\<close>

definition bad_sets_row :: row where
  "bad_sets_row =
     [(''date'', ''2024-01-01''), (''name'', ''Leg Day''), (''workout_type'', ''strength''),
      (''duration'', ''45''), (''calories_burned'', ''270''), (''notes'', ''''),
      (''exercise_name'', ''Squat''), (''category'', ''legs''), (''sets'', ''many''),
      (''reps'', ''10''), (''weight'', ''80''), (''rest_time'', ''90''),
      (''exercise_notes'', '''')]"

definition run_row :: row where
  "run_row =
     [(''date'', ''2024-01-02''), (''name'', ''Morning Run''), (''workout_type'', ''cardio''),
      (''duration'', ''30''), (''calories_burned'', ''300''), (''notes'', ''''),
      (''exercise_name'', ''''), (''category'', ''''), (''sets'', ''''),
      (''reps'', ''''), (''weight'', ''''), (''rest_time'', ''''),
      (''exercise_notes'', '''')]"

text \<open>
  The lines of the text format that the loop body accepts: the workout a workout line
  describes, and the exercise an exercise line describes for the workout with key
  \<open>pk\<close>; \<open>None\<close> for any other line.
\<close>

definition workout_line :: "nat \<Rightarrow> string \<Rightarrow> Workout option" where
  "workout_line user raw =
     (let line = py_strip raw
      in if startswith line ''WORKOUT:''
         then (case pipe_parts (drop 8 line) of
                 p0 # p1 # p2 # p3 # opt \<Rightarrow>
                   (case text_workout_data user p0 p1 p2 p3 opt of
                      Inl _ \<Rightarrow> None
                    | Inr workout_data \<Rightarrow> Some workout_data)
               | _ \<Rightarrow> None)
         else None)"

definition exercise_line :: "nat \<Rightarrow> string \<Rightarrow> Exercise option" where
  "exercise_line pk raw =
     (let line = py_strip raw
      in if startswith line ''EXERCISE:''
         then (case pipe_parts (drop 9 line) of
                 p0 # p1 # p2 # p3 # opt \<Rightarrow>
                   (case text_exercise_data pk p0 p1 p2 p3 opt of
                      Inl _ \<Rightarrow> None
                    | Inr exercise \<Rightarrow> Some exercise)
               | _ \<Rightarrow> None)
         else None)"

text \<open>A stored workout with one exercise, and text lines that name it.\<close>

definition run_300 :: Workout where
  "run_300 =
     \<lparr>user_id = 1, name = ''Morning Run'', workout_type = ''cardio'',
      date = Date 2024 1 1, duration = 30, calories_burned = 300, workout_notes = ''''\<rparr>"

definition run_store :: Store where
  "run_store = \<lparr>fitness_workouts = [run_300], fitness_exercises = [running]\<rparr>"

definition run_line :: string where
  "run_line = ''WORKOUT: Morning Run | cardio | 2024-01-01 | 45 | 999''"

definition sprint_line :: string where
  "sprint_line = ''EXERCISE: Sprint | cardio | 4 | 1 | 0 | 120''"

definition sprint :: Exercise where
  "sprint =
     \<lparr>workout_id = 0, exercise_name = ''Sprint'', category = ''cardio'', sets = 4,
      reps = 1, weight = 0, rest_time = 120, exercise_notes = ''''\<rparr>"

text \<open>
  The workout of \<open>leg_day_row\<close>, and the same workout as a JSON document and as text
  lines.
\<close>

definition leg_day_changed :: Workout where
  "leg_day_changed =
     \<lparr>user_id = 1, name = ''Leg Day'', workout_type = ''cardio'', date = Date 2024 1 1,
      duration = 60, calories_burned = 500, workout_notes = ''changed''\<rparr>"

definition squat :: "nat \<Rightarrow> Exercise" where
  "squat pk =
     \<lparr>workout_id = pk, exercise_name = ''Squat'', category = ''legs'', sets = 3,
      reps = 10, weight = 80, rest_time = 90, exercise_notes = ''''\<rparr>"

definition leg_day_doc :: json where
  "leg_day_doc =
     JObj [(''workouts'', JArr
       [JObj [(''name'', JStr ''Leg Day''), (''date'', JStr ''2024-01-01''),
              (''workout_type'', JStr ''cardio''), (''duration'', JInt 60),
              (''calories_burned'', JInt 500), (''notes'', JStr ''changed''),
              (''exercises'', JArr
                 [JObj [(''exercise_name'', JStr ''Squat''), (''category'', JStr ''legs''),
                        (''sets'', JInt 3), (''reps'', JInt 10), (''weight'', JInt 80),
                        (''rest_time'', JInt 90)]])]])]"

definition leg_day_text :: string where
  "leg_day_text =
     ''WORKOUT: Leg Day | cardio | 2024-01-01 | 60 | 500 | changed'' @ [CHR 0x0A]
     @ ''EXERCISE: Squat | legs | 3 | 10 | 80 | 90'' @ [CHR 0x0A]"

text \<open>Rows with an exercise of 150 repetitions, with a weight of 10 and without weight.\<close>

definition heavy_row :: row where
  "heavy_row =
     [(''date'', ''2024-01-01''), (''name'', ''Leg Day''), (''workout_type'', ''strength''),
      (''duration'', ''45''), (''calories_burned'', ''270''), (''notes'', ''''),
      (''exercise_name'', ''Squat''), (''category'', ''legs''), (''sets'', ''3''),
      (''reps'', ''150''), (''weight'', ''10''), (''rest_time'', ''60''),
      (''exercise_notes'', '''')]"

definition bodyweight_row :: row where
  "bodyweight_row =
     [(''date'', ''2024-01-01''), (''name'', ''Leg Day''), (''workout_type'', ''strength''),
      (''duration'', ''45''), (''calories_burned'', ''270''), (''notes'', ''''),
      (''exercise_name'', ''Squat''), (''category'', ''legs''), (''sets'', ''3''),
      (''reps'', ''150''), (''weight'', ''0''), (''rest_time'', ''60''),
      (''exercise_notes'', '''')]"

definition heavy_squat :: Exercise where
  "heavy_squat =
     \<lparr>workout_id = 0, exercise_name = ''Squat'', category = ''legs'', sets = 3,
      reps = 150, weight = 10, rest_time = 60, exercise_notes = ''''\<rparr>"

definition bodyweight_squat :: Exercise where
  "bodyweight_squat =
     \<lparr>workout_id = 0, exercise_name = ''Squat'', category = ''legs'', sets = 3,
      reps = 150, weight = 0, rest_time = 60, exercise_notes = ''''\<rparr>"

text \<open>A text payload whose first line lacks the colon of the workout marker.\<close>

definition no_colon_text :: string where
  "no_colon_text =
     ''WORKOUT Morning Run | cardio | 2024-01-01 | 30 | 300'' @ [CHR 0x0A]
     @ ''this line is no record at all'' @ [CHR 0x0A]"

text \<open>Payloads that fail at their second item, and the date that does not parse.\<close>

definition bad_date_row :: row where
  "bad_date_row =
     [(''date'', ''01/02/2024''), (''name'', ''Evening Walk''), (''workout_type'', ''cardio''),
      (''duration'', ''20''), (''calories_burned'', ''80''), (''notes'', ''''),
      (''exercise_name'', '''')]"

definition no_duration_doc :: json where
  "no_duration_doc =
     JObj [(''workouts'', JArr
       [JObj [(''name'', JStr ''Morning Run''), (''date'', JStr ''2024-01-02''),
              (''workout_type'', JStr ''cardio''), (''duration'', JInt 30),
              (''calories_burned'', JInt 300)],
        JObj [(''name'', JStr ''Evening Walk''), (''date'', JStr ''2024-01-02'')]])]"

definition bad_second_line_text :: string where
  "bad_second_line_text =
     ''WORKOUT: Morning Run | cardio | 2024-01-02 | 30 | 300'' @ [CHR 0x0A]
     @ ''EXERCISE: Running | cardio | one | 1'' @ [CHR 0x0A]"

definition run_jan_2 :: Workout where
  "run_jan_2 =
     \<lparr>user_id = 1, name = ''Morning Run'', workout_type = ''cardio'',
      date = Date 2024 1 2, duration = 30, calories_burned = 300, workout_notes = ''''\<rparr>"

text \<open>A text payload whose only record, too short to be a workout, is on its third line.\<close>

definition short_third_line_text :: string where
  "short_third_line_text = [CHR 0x0A, CHR 0x0A] @ ''WORKOUT: Morning Run | cardio''"

section \<open>The calorie estimate\<close>




lemma length_auto_calculate:
  "length (fitness_workouts (auto_calculate_calories inst created st)) = length (fitness_workouts st)"
  by (cases inst) (simp add: auto_calculate_calories_def update_calories_burned_def Let_def)



section \<open>A JSON document without workouts\<close>

text \<open>
  C10. A JSON payload that parses as an object without a \<open>workouts\<close> key is imported
  without error, with both counters zero, and the store stays as it was, whatever the
  user and the overwrite flag.
\<close>

theorem import_json_without_workouts:
  assumes "map_of kvs ''workouts'' = None"
  shows "import_json_data user (Some (JObj kvs)) overwrite_existing st =
           (Inr \<lparr>imported = 0, exercises = 0\<rparr>, st)"
  using assms
  by (simp add: import_json_data_def json_get_def json_iter_def try_bind_def return_counts_def)

theorem import_json_without_workouts_witness:
  "import_json_data 1 (Some (JObj [(''version'', JInt 2)])) True empty_store =
     (Inr \<lparr>imported = 0, exercises = 0\<rparr>, empty_store)"
proof -
  have "map_of [(''version'', JInt 2)] ''workouts'' = None" by simp
  then show ?thesis by (rule import_json_without_workouts)
qed

section \<open>Looking a workout up\<close>

lemma find_last_None: "find_last P xs = None \<longleftrightarrow> (\<forall>x \<in> set xs. \<not> P x)"
  by (induction xs) (auto split: option.splits)

lemma find_last_Some: "find_last P xs = Some i \<Longrightarrow> i < length xs \<and> P (xs ! i)"
  by (induction xs arbitrary: i) (auto split: option.splits if_splits)

lemma filter_first_None: "Workout_filter_first u nm d st = None \<longleftrightarrow> \<not> has_key u nm d st"
proof (cases "find_last (same_key u nm d) (fitness_workouts st)")
  case None
  then have "\<not> list_ex (same_key u nm d) (fitness_workouts st)"
    by (simp add: list_ex_iff find_last_None)
  with None show ?thesis
    by (simp add: Workout_filter_first_def has_key_def)
next
  case (Some i)
  then have "i < length (fitness_workouts st) \<and> same_key u nm d (fitness_workouts st ! i)"
    by (rule find_last_Some)
  then have "list_ex (same_key u nm d) (fitness_workouts st)"
    unfolding list_ex_iff using nth_mem by blast
  with Some show ?thesis
    by (simp add: Workout_filter_first_def has_key_def)
qed

lemma filter_first_Some:
  "Workout_filter_first u nm d st = Some inst \<Longrightarrow>
     fst inst < length (fitness_workouts st) \<and> snd inst = fitness_workouts st ! fst inst
     \<and> same_key u nm d (snd inst)"
  by (auto simp: Workout_filter_first_def split: option.splits dest: find_last_Some)

lemma filter_first_no_pair:
  "(\<forall>pk w. Workout_filter_first u nm d st \<noteq> Some (pk, w)) \<longleftrightarrow> \<not> has_key u nm d st"
  using filter_first_None [of u nm d st]
  by (cases "Workout_filter_first u nm d st") auto

lemma filter_first_has_key:
  "Workout_filter_first u nm d st = Some inst \<Longrightarrow> has_key u nm d st"
  using filter_first_None [of u nm d st] by auto

section \<open>The workouts a store knows only grow\<close>

lemma list_ex_update:
  "i < length xs \<Longrightarrow> P y = P (xs ! i) \<Longrightarrow> list_ex P (xs[i := y]) = list_ex P xs"
proof (induction xs arbitrary: i)
  case Nil
  then show ?case by simp
next
  case (Cons x xs)
  then show ?case by (cases i) auto
qed

lemma has_key_auto_calculate:
  "has_key u nm d (auto_calculate_calories inst created st) = has_key u nm d st"
proof -
  have "has_key u nm d (update_calories_burned pk c st) = has_key u nm d st" for pk c
    by (simp add: update_calories_burned_def has_key_def list_ex_update same_key_def)
  then show ?thesis
    by (cases inst) (simp add: auto_calculate_calories_def Let_def)
qed

lemma same_key_auto_calculate:
  "pk < length (fitness_workouts st) \<Longrightarrow>
   same_key u nm d (fitness_workouts (auto_calculate_calories inst created st) ! pk)
     = same_key u nm d (fitness_workouts st ! pk)"
  by (cases inst)
     (auto simp: auto_calculate_calories_def update_calories_burned_def Let_def same_key_def
        nth_list_update)

lemma has_key_create:
  "has_key u nm d (snd (Workout_objects_create w st)) \<longleftrightarrow> has_key u nm d st \<or> same_key u nm d w"
proof -
  have "has_key u nm d (st\<lparr>fitness_workouts := fitness_workouts st @ [w]\<rparr>)
          \<longleftrightarrow> has_key u nm d st \<or> same_key u nm d w"
    by (auto simp: has_key_def)
  then show ?thesis
    by (simp add: Workout_objects_create_def Let_def has_key_auto_calculate)
qed

lemma create_row:
  "Workout_objects_create w st = (inst, st1) \<Longrightarrow>
     fst inst = length (fitness_workouts st) \<and> snd inst = w
     \<and> length (fitness_workouts st1) = Suc (length (fitness_workouts st))
     \<and> same_key u nm d (fitness_workouts st1 ! fst inst) = same_key u nm d w"
  by (auto simp: Workout_objects_create_def Let_def length_auto_calculate same_key_auto_calculate)

lemma has_key_save:
  assumes "fst inst < length (fitness_workouts st)"
    and "same_key u nm d (snd inst) = same_key u nm d (fitness_workouts st ! fst inst)"
  shows "has_key u nm d (Workout_save inst st) = has_key u nm d st"
proof -
  have "has_key u nm d (st\<lparr>fitness_workouts := (fitness_workouts st)[fst inst := snd inst]\<rparr>)
          = has_key u nm d st"
    using assms by (simp add: has_key_def list_ex_update)
  then show ?thesis
    by (simp add: Workout_save_def has_key_auto_calculate)
qed

lemma has_key_exercise_create:
  assumes "fst inst < length (fitness_workouts st)"
    and "same_key u nm d (snd inst) = same_key u nm d (fitness_workouts st ! fst inst)"
  shows "has_key u nm d (Exercise_objects_create inst e st) = has_key u nm d st"
proof -
  let ?st = "st\<lparr>fitness_exercises := fitness_exercises st @ [e]\<rparr>"
  have "has_key u nm d (Workout_save inst ?st) = has_key u nm d ?st"
    by (rule has_key_save) (use assms in simp_all)
  then show ?thesis
    by (simp add: Exercise_objects_create_def has_key_def)
qed

text \<open>Creating a workout, then perhaps an exercise for it, keeps every known workout.\<close>

lemma has_key_create_then_exercise:
  assumes "Workout_objects_create w st = (inst, st1)"
  shows "has_key u nm d (Exercise_objects_create inst e st1) \<longleftrightarrow> has_key u nm d st \<or> same_key u nm d w"
proof -
  from assms have row: "fst inst = length (fitness_workouts st)" "snd inst = w"
      "length (fitness_workouts st1) = Suc (length (fitness_workouts st))"
      "same_key u nm d (fitness_workouts st1 ! fst inst) = same_key u nm d w"
    using create_row [OF assms, of u nm d] by blast+
  have "has_key u nm d (Exercise_objects_create inst e st1) = has_key u nm d st1"
    by (rule has_key_exercise_create) (use row in simp_all)
  also have "\<dots> \<longleftrightarrow> has_key u nm d st \<or> same_key u nm d w"
    using has_key_create [of u nm d w st] assms by simp
  finally show ?thesis .
qed

section \<open>The CSV loop body\<close>

text \<open>
  The update branch is never taken: the lookup runs only when \<open>overwrite_existing\<close>
  is false, and then a workout that is found makes the row \<^verbatim>\<open>continue\<close>.
\<close>

lemma csv_resolve_existing:
  "csv_resolve user r overwrite_existing st = Inr (Some (existing_workout, workout_data))
     \<Longrightarrow> existing_workout = None"
  by (auto simp: csv_resolve_def try_bind_def lookup_existing_def filter_first_no_pair
      filter_first_None split: sum.splits if_splits)

lemma csv_resolve_known:
  "row_known user st r \<Longrightarrow> csv_resolve user r False st = Inr None"
  by (auto simp: row_known_def csv_resolve_def try_bind_def row_item_def lookup_existing_def
      filter_first_no_pair split: option.splits sum.splits)

lemma csv_resolve_new:
  assumes "csv_resolve user r False st = Inr (Some (existing_workout, workout_data))"
  shows "row_known user st' r \<longleftrightarrow> has_key user (name workout_data) (date workout_data) st'"
    and "user_id workout_data = user"
  using assms
  by (auto simp: row_known_def csv_resolve_def csv_workout_data_def try_bind_def row_item_def
      split: option.splits sum.splits if_splits)

lemma csv_resolve_skip:
  "csv_resolve user r False st = Inr None \<Longrightarrow> row_known user st r"
  by (auto simp: row_known_def csv_resolve_def try_bind_def row_item_def lookup_existing_def
      filter_first_no_pair filter_first_has_key split: option.splits sum.splits if_splits)

lemma csv_row_skip:
  "row_known user st r \<Longrightarrow> csv_row user False r acc st = (Inr acc, st)"
  by (simp add: csv_row_def csv_resolve_known)

text \<open>What a row that is not skipped writes: a new workout, then perhaps its exercise.\<close>

lemma csv_row_writes:
  assumes "csv_resolve user r overwrite_existing st = Inr (Some (existing_workout, workout_data))"
    and "Workout_objects_create workout_data st = (workout, st1)"
  shows "csv_row user overwrite_existing r acc st =
           (case csv_exercise_data r (fst workout) of
              Inl e \<Rightarrow> (Inl (csv_except r e), st1)
            | Inr None \<Rightarrow> (Inr (fst acc + 1, snd acc), st1)
            | Inr (Some exercise) \<Rightarrow>
                (Inr (fst acc + 1, snd acc + 1), Exercise_objects_create workout exercise st1))"
proof -
  have "existing_workout = None"
    using assms(1) by (rule csv_resolve_existing)
  then show ?thesis
    using assms by (simp add: csv_row_def store_workout_def del: One_nat_def)
qed

lemma csv_row_has_key:
  assumes "csv_row user overwrite_existing r acc st = (res, st')" and "has_key u nm d st"
  shows "has_key u nm d st'"
proof (cases "csv_resolve user r overwrite_existing st")
  case (Inl e)
  with assms show ?thesis by (simp add: csv_row_def)
next
  case (Inr x)
  show ?thesis
  proof (cases x)
    case None
    with Inr assms show ?thesis by (simp add: csv_row_def)
  next
    case (Some p)
    obtain ex wd where p: "p = (ex, wd)" by (cases p)
    obtain workout st1 where c: "Workout_objects_create wd st = (workout, st1)"
      by (cases "Workout_objects_create wd st")
    have k1: "has_key u nm d st1"
      using has_key_create [of u nm d wd st] c assms(2) by simp
    have k2: "has_key u nm d (Exercise_objects_create workout e st1)" for e
      using has_key_create_then_exercise [OF c, of u nm d e] assms(2) by simp
    have "csv_row user overwrite_existing r acc st =
           (case csv_exercise_data r (fst workout) of
              Inl e \<Rightarrow> (Inl (csv_except r e), st1)
            | Inr None \<Rightarrow> (Inr (fst acc + 1, snd acc), st1)
            | Inr (Some exercise) \<Rightarrow>
                (Inr (fst acc + 1, snd acc + 1), Exercise_objects_create workout exercise st1))"
      using Inr Some p c by (intro csv_row_writes) simp_all
    with assms(1) k1 k2 show ?thesis
      by (auto split: sum.splits option.splits)
  qed
qed

lemma csv_row_row_known:
  assumes "csv_row user overwrite_existing r acc st = (res, st')" and "row_known user st r0"
  shows "row_known user st' r0"
  using assms(2) csv_row_has_key [OF assms(1)]
  by (auto simp: row_known_def split: option.splits sum.splits)

lemma csv_row_resolves:
  assumes "csv_row user False r acc st = (Inr acc', st')"
  shows "row_known user st' r"
proof (cases "csv_resolve user r False st")
  case (Inl e)
  with assms show ?thesis by (simp add: csv_row_def)
next
  case (Inr x)
  show ?thesis
  proof (cases x)
    case None
    with Inr have "row_known user st r" by (simp add: csv_resolve_skip)
    moreover from None Inr assms have "st' = st" by (simp add: csv_row_def)
    ultimately show ?thesis by simp
  next
    case (Some p)
    obtain ex wd where p: "p = (ex, wd)" by (cases p)
    obtain workout st1 where c: "Workout_objects_create wd st = (workout, st1)"
      by (cases "Workout_objects_create wd st")
    have res: "csv_resolve user r False st = Inr (Some (ex, wd))"
      using Inr Some p by simp
    have key: "same_key user (name wd) (date wd) wd"
      using csv_resolve_new(2) [OF res] by (simp add: same_key_def)
    have k1: "has_key user (name wd) (date wd) st1"
      using has_key_create [of user "name wd" "date wd" wd st] c key by simp
    have k2: "has_key user (name wd) (date wd) (Exercise_objects_create workout e st1)" for e
      using has_key_create_then_exercise [OF c, of user "name wd" "date wd" e] key by simp
    have "csv_row user False r acc st =
           (case csv_exercise_data r (fst workout) of
              Inl e \<Rightarrow> (Inl (csv_except r e), st1)
            | Inr None \<Rightarrow> (Inr (fst acc + 1, snd acc), st1)
            | Inr (Some exercise) \<Rightarrow>
                (Inr (fst acc + 1, snd acc + 1), Exercise_objects_create workout exercise st1))"
      using res c by (rule csv_row_writes)
    with assms have "has_key user (name wd) (date wd) st'"
      using k1 k2 by (auto split: sum.splits option.splits)
    then show ?thesis
      using csv_resolve_new(1) [OF res] by simp
  qed
qed

section \<open>Loops\<close>

lemma for_each_append:
  "for_each body (xs @ ys) acc st =
     (case for_each body xs acc st of
        (Inl e, st') \<Rightarrow> (Inl e, st')
      | (Inr acc', st') \<Rightarrow> for_each body ys acc' st')"
  by (induction xs arbitrary: acc st) (auto split: prod.splits sum.splits)

text \<open>
  A loop that fails has a failing item: the items before it ran to their end, and the
  store is the one the failing item left.
\<close>

lemma for_each_failure:
  "for_each body xs acc st = (Inl e, st') \<Longrightarrow>
     \<exists>before x after acc1 st1.
        xs = before @ x # after
        \<and> for_each body before acc st = (Inr acc1, st1)
        \<and> body x acc1 st1 = (Inl e, st')"
proof (induction xs arbitrary: acc st)
  case Nil
  then show ?case by simp
next
  case (Cons x xs)
  show ?case
  proof (cases "body x acc st")
    case (Pair res st1)
    show ?thesis
    proof (cases res)
      case (Inl e1)
      with Pair Cons.prems have "body x acc st = (Inl e, st')" by simp
      then have "x # xs = [] @ x # xs \<and> for_each body [] acc st = (Inr acc, st)
                   \<and> body x acc st = (Inl e, st')"
        by simp
      then show ?thesis by blast
    next
      case (Inr acc1)
      with Pair Cons.prems have "for_each body xs acc1 st1 = (Inl e, st')" by simp
      from Cons.IH [OF this] obtain before y after acc2 st2 where
        *: "xs = before @ y # after" "for_each body before acc1 st1 = (Inr acc2, st2)"
           "body y acc2 st2 = (Inl e, st')"
        by blast
      have "x # xs = (x # before) @ y # after
              \<and> for_each body (x # before) acc st = (Inr acc2, st2)
              \<and> body y acc2 st2 = (Inl e, st')"
        using * Pair Inr by simp
      then show ?thesis by blast
    qed
  qed
qed

lemma csv_rows_row_known:
  "for_each (csv_row user overwrite_existing) rows acc st = (res, st') \<Longrightarrow>
     row_known user st r0 \<Longrightarrow> row_known user st' r0"
proof (induction rows arbitrary: acc st)
  case Nil
  then show ?case by simp
next
  case (Cons r rows)
  obtain res1 st1 where step: "csv_row user overwrite_existing r acc st = (res1, st1)"
    by (cases "csv_row user overwrite_existing r acc st")
  have known: "row_known user st1 r0"
    using step Cons.prems(2) by (rule csv_row_row_known)
  show ?case
  proof (cases res1)
    case (Inl e)
    with step Cons.prems(1) known show ?thesis by simp
  next
    case (Inr acc1)
    with step Cons.prems(1) have "for_each (csv_row user overwrite_existing) rows acc1 st1 = (res, st')"
      by simp
    then show ?thesis using known by (rule Cons.IH)
  qed
qed

lemma csv_rows_all_known:
  "for_each (csv_row user False) rows acc st = (Inr acc', st') \<Longrightarrow>
     \<forall>r \<in> set rows. row_known user st' r"
proof (induction rows arbitrary: acc st)
  case Nil
  then show ?case by simp
next
  case (Cons r rows)
  obtain res1 st1 where step: "csv_row user False r acc st = (res1, st1)"
    by (cases "csv_row user False r acc st")
  with Cons.prems obtain acc1 where res1: "res1 = Inr acc1"
    by (cases res1) simp_all
  have rest: "for_each (csv_row user False) rows acc1 st1 = (Inr acc', st')"
    using step res1 Cons.prems by simp
  have "row_known user st1 r"
    using step res1 csv_row_resolves by simp
  with rest have "row_known user st' r"
    by (rule csv_rows_row_known)
  moreover have "\<forall>r \<in> set rows. row_known user st' r"
    using rest by (rule Cons.IH)
  ultimately show ?case by simp
qed

lemma csv_rows_all_skipped:
  "\<forall>r \<in> set rows. row_known user st r \<Longrightarrow>
     for_each (csv_row user False) rows acc st = (Inr acc, st)"
  by (induction rows) (simp_all add: csv_row_skip)

section \<open>CSV rows whose workout exists\<close>

text \<open>
  C6. With \<open>overwrite_existing\<close> false, a CSV row whose name and date are those of a
  workout the user has is skipped as a whole: the store after the row is the store
  before it, so the workout keeps its fields and no exercise is attached, and both
  counters keep their values.
\<close>

theorem csv_existing_workout_untouched:
  assumes "map_of r ''date'' = Some ds" and "strptime_date ds = Inr d"
    and "map_of r ''name'' = Some nm"
    and "Workout_filter_first user nm d st = Some existing"
  shows "csv_row user False r (imported_workouts, imported_exercises) st =
           (Inr (imported_workouts, imported_exercises), st)"
proof -
  have "has_key user nm d st"
    using assms(4) by (rule filter_first_has_key)
  then have "row_known user st r"
    using assms(1-3) by (simp add: row_known_def)
  then show ?thesis by (rule csv_row_skip)
qed

lemma strptime_2024_01_01: "strptime_date ''2024-01-01'' = Inr (Date 2024 1 1)"
  by (simp add: strptime_date_def is_digit_def break_at_def month_directive_def
      day_directive_def decimal_def digit_val_def days_in_month_def is_leap_def)

theorem csv_existing_workout_untouched_witness:
  "csv_row 1 False leg_day_row (0, 0) leg_day_store = (Inr (0, 0), leg_day_store)"
proof -
  have 1: "map_of leg_day_row ''date'' = Some ''2024-01-01''"
    and 2: "map_of leg_day_row ''name'' = Some ''Leg Day''"
    by (simp_all add: leg_day_row_def)
  have 3: "Workout_filter_first 1 ''Leg Day'' (Date 2024 1 1) leg_day_store = Some (0, leg_day)"
    by (simp add: Workout_filter_first_def leg_day_store_def leg_day_def same_key_def)
  show ?thesis
    using csv_existing_workout_untouched [OF 1 strptime_2024_01_01 2 3] .
qed

section \<open>Importing the same CSV payload twice\<close>

text \<open>
  C5, as the code has it. When a CSV import with \<open>overwrite_existing\<close> false returns
  its counts, importing the same payload again with \<open>overwrite_existing\<close> false
  returns zero for both counters and leaves the store as the first import left it: the
  second call creates no workout and no exercise.
\<close>

theorem csv_second_import_creates_nothing:
  assumes "import_csv_data user rows False st = (Inr counts, st1)"
  shows "import_csv_data user rows False st1 = (Inr \<lparr>imported = 0, exercises = 0\<rparr>, st1)"
proof -
  obtain res where loop: "for_each (csv_row user False) rows (0, 0) st = (res, st1)"
    using assms by (auto simp: import_csv_data_def return_counts_def split: prod.splits sum.splits)
  with assms obtain acc where "res = Inr acc"
    by (cases res) (simp_all add: import_csv_data_def return_counts_def)
  with loop have "\<forall>r \<in> set rows. row_known user st1 r"
    using csv_rows_all_known by simp
  then have "for_each (csv_row user False) rows (0, 0) st1 = (Inr (0, 0), st1)"
    by (rule csv_rows_all_skipped)
  then show ?thesis
    by (simp add: import_csv_data_def return_counts_def)
qed

lemma import_leg_day_row:
  "import_csv_data 1 [leg_day_row] False empty_store =
     (Inr \<lparr>imported = 1, exercises = 1\<rparr>, leg_day_imported)"
  by code_simp

theorem csv_second_import_creates_nothing_witness:
  "import_csv_data 1 [leg_day_row] False empty_store =
     (Inr \<lparr>imported = 1, exercises = 1\<rparr>, leg_day_imported)
   \<and> import_csv_data 1 [leg_day_row] False leg_day_imported =
       (Inr \<lparr>imported = 0, exercises = 0\<rparr>, leg_day_imported)"
  using import_leg_day_row csv_second_import_creates_nothing [OF import_leg_day_row]
  by simp

text \<open>
  The claim as stated, for every payload, fails when the first import fails after it
  has written: the first row's workout is stored before its exercise columns raise, so
  the second import skips that row and goes on to create the second row's workout.
  One workout is stored after the first call, two after the second.
\<close>

theorem csv_second_import_counterexample:
  "fst (import_csv_data 1 [bad_sets_row, run_row] False empty_store)
     = Inl (ValidationError (Invalid_CSV_data bad_sets_row ValueError))
   \<and> fst (import_csv_data 1 [bad_sets_row, run_row] False
            (snd (import_csv_data 1 [bad_sets_row, run_row] False empty_store)))
     = Inr \<lparr>imported = 1, exercises = 0\<rparr>
   \<and> length (fitness_workouts (snd (import_csv_data 1 [bad_sets_row, run_row] False empty_store)))
     = 1
   \<and> length (fitness_workouts
        (snd (import_csv_data 1 [bad_sets_row, run_row] False
               (snd (import_csv_data 1 [bad_sets_row, run_row] False empty_store)))))
     = 2"
  by code_simp

section \<open>The text loop body\<close>

lemma exercises_auto_calculate:
  "fitness_exercises (auto_calculate_calories inst created st) = fitness_exercises st"
  by (cases inst) (simp add: auto_calculate_calories_def update_calories_burned_def Let_def)

lemma exercises_Exercise_objects_create:
  "fitness_exercises (Exercise_objects_create workout e st) = fitness_exercises st @ [e]"
  by (simp add: Exercise_objects_create_def Workout_save_def exercises_auto_calculate)

lemma startswith_marker:
  assumes "startswith line (c # cs)"
  shows "line \<noteq> []" and "c \<noteq> c' \<Longrightarrow> \<not> startswith line (c' # cs')"
  using assms by (cases line; simp add: startswith_def)+

lemma text_line_workout_skipped:
  assumes "workout_line user raw = Some workout_data"
    and "Workout_filter_first user (name workout_data) (date workout_data) st = Some existing"
  shows "text_line user False (line_num, raw) (current_workout, imported_workouts, imported_exercises) st =
           (Inr (Some existing, imported_workouts, imported_exercises), st)"
proof -
  let ?line = "py_strip raw"
  have marker: "startswith ?line ''WORKOUT:''"
    using assms(1) by (simp add: workout_line_def Let_def split: if_splits)
  then have nonblank: "?line \<noteq> []" and nocomment: "\<not> startswith ?line ''#''"
    using startswith_marker [of ?line "CHR ''W''" "''ORKOUT:''"] by simp_all
  obtain p0 p1 p2 p3 opt where parts: "pipe_parts (drop 8 ?line) = p0 # p1 # p2 # p3 # opt"
    and data: "text_workout_data user p0 p1 p2 p3 opt = Inr workout_data"
    using assms(1) marker
    by (auto simp: workout_line_def Let_def split: list.splits sum.splits)
  have "text_workout user False line_num ?line
          (current_workout, imported_workouts, imported_exercises) st =
        (Inr (Some existing, imported_workouts, imported_exercises), st)"
    by (simp add: text_workout_def parts data lookup_existing_def assms(2))
  then show ?thesis
    by (simp add: text_line_def Let_def marker nonblank nocomment)
qed

lemma text_line_exercise:
  assumes "exercise_line (fst workout) raw = Some exercise"
  shows "text_line user overwrite_existing (line_num, raw)
           (Some workout, imported_workouts, imported_exercises) st =
           (Inr (Some workout, imported_workouts, imported_exercises + 1),
            Exercise_objects_create workout exercise st)"
proof -
  let ?line = "py_strip raw"
  have marker: "startswith ?line ''EXERCISE:''"
    using assms by (simp add: exercise_line_def Let_def split: if_splits)
  then have nonblank: "?line \<noteq> []" and nocomment: "\<not> startswith ?line ''#''"
    and noworkout: "\<not> startswith ?line ''WORKOUT:''"
    using startswith_marker [of ?line "CHR ''E''" "''XERCISE:''"] by simp_all
  obtain p0 p1 p2 p3 opt where parts: "pipe_parts (drop 9 ?line) = p0 # p1 # p2 # p3 # opt"
    and data: "text_exercise_data (fst workout) p0 p1 p2 p3 opt = Inr exercise"
    using assms marker
    by (auto simp: exercise_line_def Let_def split: list.splits sum.splits)
  have "text_exercise line_num ?line (Some workout, imported_workouts, imported_exercises) st =
          (Inr (Some workout, imported_workouts, imported_exercises + 1),
           Exercise_objects_create workout exercise st)"
    by (simp add: text_exercise_def parts data del: One_nat_def)
  then show ?thesis
    by (simp add: text_line_def Let_def marker nonblank nocomment noworkout del: One_nat_def)
qed

lemma text_exercise_lines:
  assumes "\<forall>l \<in> set items. exercise_line (fst workout) (snd l) \<noteq> None"
  shows "fst (for_each (text_line user overwrite_existing) items
                (Some workout, imported_workouts, imported_exercises) st) =
           Inr (Some workout, imported_workouts, imported_exercises + length items)
         \<and> fitness_exercises
             (snd (for_each (text_line user overwrite_existing) items
                     (Some workout, imported_workouts, imported_exercises) st)) =
           fitness_exercises st @ map (\<lambda>l. the (exercise_line (fst workout) (snd l))) items"
  using assms
proof (induction items arbitrary: imported_exercises st)
  case Nil
  then show ?case by simp
next
  case (Cons l items)
  obtain line_num raw where l: "l = (line_num, raw)" by (cases l)
  obtain exercise where ex: "exercise_line (fst workout) raw = Some exercise"
    using Cons.prems l by auto
  have step: "text_line user overwrite_existing (line_num, raw)
                (Some workout, imported_workouts, imported_exercises) st =
              (Inr (Some workout, imported_workouts, imported_exercises + 1),
               Exercise_objects_create workout exercise st)"
    using ex by (rule text_line_exercise)
  have rest: "\<forall>l \<in> set items. exercise_line (fst workout) (snd l) \<noteq> None"
    using Cons.prems by simp
  show ?case
    using Cons.IH [OF rest, of "imported_exercises + 1" "Exercise_objects_create workout exercise st"]
    by (simp add: step exercises_Exercise_objects_create l ex)
qed

section \<open>Exercise lines under a workout line that was skipped\<close>

text \<open>
  C7. In a text import with \<open>overwrite_existing\<close> false, a workout line whose name
  and date are those of a workout the user has leaves the store as it is and makes
  that workout the active one. Every valid exercise line that follows then creates
  an exercise with that workout's key and adds one to the exercise counter, while the
  workout counter stays.
\<close>

theorem text_exercises_attach_to_existing:
  assumes "workout_line user raw = Some workout_data"
    and "Workout_filter_first user (name workout_data) (date workout_data) st = Some existing"
    and "\<forall>l \<in> set items. exercise_line (fst existing) (snd l) \<noteq> None"
  shows "text_line user False (line_num, raw) (current_workout, imported_workouts, imported_exercises) st =
           (Inr (Some existing, imported_workouts, imported_exercises), st)
         \<and> fst (for_each (text_line user False) ((line_num, raw) # items)
                  (current_workout, imported_workouts, imported_exercises) st) =
           Inr (Some existing, imported_workouts, imported_exercises + length items)
         \<and> fitness_exercises
             (snd (for_each (text_line user False) ((line_num, raw) # items)
                     (current_workout, imported_workouts, imported_exercises) st)) =
           fitness_exercises st @ map (\<lambda>l. the (exercise_line (fst existing) (snd l))) items
         \<and> (\<forall>l \<in> set items. workout_id (the (exercise_line (fst existing) (snd l))) = fst existing)"
proof -
  have first: "text_line user False (line_num, raw)
                 (current_workout, imported_workouts, imported_exercises) st =
               (Inr (Some existing, imported_workouts, imported_exercises), st)"
    using assms(1,2) by (rule text_line_workout_skipped)
  have attached: "workout_id (the (exercise_line pk l)) = pk" if "exercise_line pk l \<noteq> None" for pk l
    using that
    by (auto simp: exercise_line_def Let_def text_exercise_data_def try_bind_def
        split: if_splits list.splits sum.splits)
  show ?thesis
    using first text_exercise_lines [OF assms(3), of user False imported_workouts imported_exercises st]
      attached assms(3)
    by simp
qed

lemma run_line_workout:
  "workout_line 1 run_line =
     Some \<lparr>user_id = 1, name = ''Morning Run'', workout_type = ''cardio'',
           date = Date 2024 1 1, duration = 45, calories_burned = 999, workout_notes = ''''\<rparr>"
  by code_simp

lemma sprint_line_exercise: "exercise_line 0 sprint_line = Some sprint"
  by code_simp

theorem text_exercises_attach_to_existing_witness:
  "text_line 1 False (1, run_line) (None, 0, 0) run_store = (Inr (Some (0, run_300), 0, 0), run_store)
   \<and> fst (for_each (text_line 1 False) [(1, run_line), (2, sprint_line)] (None, 0, 0) run_store) =
       Inr (Some (0, run_300), 0, 1)
   \<and> fitness_exercises
       (snd (for_each (text_line 1 False) [(1, run_line), (2, sprint_line)] (None, 0, 0) run_store)) =
       [running, sprint]
   \<and> workout_id sprint = 0"
proof -
  have found: "Workout_filter_first 1
       (name \<lparr>user_id = 1, name = ''Morning Run'', workout_type = ''cardio'',
              date = Date 2024 1 1, duration = 45, calories_burned = 999, workout_notes = ''''\<rparr>)
       (date \<lparr>user_id = 1, name = ''Morning Run'', workout_type = ''cardio'',
              date = Date 2024 1 1, duration = 45, calories_burned = 999, workout_notes = ''''\<rparr>)
       run_store = Some (0, run_300)"
    by (simp add: Workout_filter_first_def run_store_def run_300_def same_key_def)
  have lines: "\<forall>l \<in> set [(2, sprint_line)]. exercise_line (fst (0::nat, run_300)) (snd l) \<noteq> None"
    by (simp add: sprint_line_exercise)
  have stored: "fitness_exercises run_store = [running]"
    by (simp add: run_store_def)
  show ?thesis
    using text_exercises_attach_to_existing [OF run_line_workout found lines, of 1 None 0 0]
    by (simp add: sprint_line_exercise stored del: for_each.simps)
qed

section \<open>Overwriting\<close>

text \<open>
  C1 at a concrete input, in the three formats. The user has the workout \<open>leg_day\<close>;
  a payload with its name and date is imported with \<open>overwrite_existing\<close> true.
  The function never looks the workout up, so the update branch is not reached: a
  second workout with the same name and date is created, the stored one keeps its
  fields, and the workout counter is 1.
\<close>

theorem overwrite_creates_second_workout:
  "import_csv_data 1 [leg_day_row] True leg_day_store =
     (Inr \<lparr>imported = 1, exercises = 1\<rparr>,
      \<lparr>fitness_workouts = [leg_day, leg_day_changed], fitness_exercises = [squat 1]\<rparr>)
   \<and> import_json_data 1 (Some leg_day_doc) True leg_day_store =
     (Inr \<lparr>imported = 1, exercises = 1\<rparr>,
      \<lparr>fitness_workouts = [leg_day, leg_day_changed], fitness_exercises = [squat 1]\<rparr>)
   \<and> import_text_data 1 leg_day_text True leg_day_store =
     (Inr \<lparr>imported = 1, exercises = 1\<rparr>,
      \<lparr>fitness_workouts = [leg_day, leg_day_changed], fitness_exercises = [squat 1]\<rparr>)"
  by code_simp

section \<open>The rule of Exercise.clean\<close>

text \<open>
  C3 at a concrete input. A CSV row with 150 repetitions and a weight of 10 is
  imported without error and its exercise is stored, although \<^verbatim>\<open>Exercise.clean\<close>
  raises for it: the import creates the exercise with \<^verbatim>\<open>objects.create\<close>, which
  does not call \<^verbatim>\<open>clean\<close>. The same row with weight 0 is imported as well, and
  \<^verbatim>\<open>clean\<close> accepts its exercise.
\<close>

theorem heavy_exercise_is_imported:
  "import_csv_data 1 [heavy_row] False empty_store =
     (Inr \<lparr>imported = 1, exercises = 1\<rparr>,
      \<lparr>fitness_workouts = [leg_day], fitness_exercises = [heavy_squat]\<rparr>)
   \<and> Exercise_clean_raises heavy_squat
   \<and> import_csv_data 1 [bodyweight_row] False empty_store =
     (Inr \<lparr>imported = 1, exercises = 1\<rparr>,
      \<lparr>fitness_workouts = [leg_day], fitness_exercises = [bodyweight_squat]\<rparr>)
   \<and> \<not> Exercise_clean_raises bodyweight_squat"
  by code_simp

section \<open>Export, then import\<close>

text \<open>
  C4 at a concrete input. The user has one workout with one exercise. The JSON export
  of the user's workouts, imported again with \<open>overwrite_existing\<close> true, leaves two
  workouts and two exercises: the import creates a copy instead of overwriting.
\<close>

theorem json_round_trip_duplicates:
  "export_json_data (user_workouts 1 run_store) run_store =
     JObj [(''workouts'', JArr
       [JObj [(''name'', JStr ''Morning Run''), (''date'', JStr ''2024-01-01''),
              (''workout_type'', JStr ''cardio''), (''duration'', JInt 30),
              (''calories_burned'', JInt 300), (''notes'', JStr ''''),
              (''exercises'', JArr
                 [JObj [(''exercise_name'', JStr ''Running''), (''category'', JStr ''cardio''),
                        (''sets'', JInt 1), (''reps'', JInt 1), (''weight'', JFloat 0),
                        (''rest_time'', JInt 0), (''notes'', JStr '''')]])]])]
   \<and> import_json_data 1 (Some (export_json_data (user_workouts 1 run_store) run_store)) True
       run_store =
     (Inr \<lparr>imported = 1, exercises = 1\<rparr>,
      \<lparr>fitness_workouts = [run_300, run_300],
       fitness_exercises = [running, running\<lparr>workout_id := 1\<rparr>]\<rparr>)"
  by code_simp

section \<open>Lines that are no records\<close>

text \<open>
  C8 at concrete inputs. Neither line of the first payload is blank, a comment, a
  workout record or an exercise record; the import returns its counts, both zero, and
  reports no line. The second payload has a workout line with two fields on its third
  line; the import fails and reports line 1, since the lines are numbered after the
  payload has been stripped of its leading blank lines.
\<close>

theorem malformed_lines_are_ignored:
  "import_text_data 1 no_colon_text False empty_store =
     (Inr \<lparr>imported = 0, exercises = 0\<rparr>, empty_store)
   \<and> import_text_data 1 short_third_line_text False empty_store =
     (Inl (ValidationError (Workout_line_too_short 1)), empty_store)"
  by code_simp

section \<open>What a failed import leaves\<close>

text \<open>A CSV row that fails has written nothing, or its workout without the exercise.\<close>

lemma csv_row_failure_store:
  assumes "csv_row user overwrite_existing r acc st = (Inl e, st')"
  shows "st' = st \<or> (\<exists>w. st' = snd (Workout_objects_create w st))"
proof (cases "csv_resolve user r overwrite_existing st")
  case (Inl x)
  with assms show ?thesis by (simp add: csv_row_def)
next
  case (Inr x)
  show ?thesis
  proof (cases x)
    case None
    with Inr assms show ?thesis by (simp add: csv_row_def)
  next
    case (Some p)
    obtain ex wd where p: "p = (ex, wd)" by (cases p)
    obtain workout st1 where c: "Workout_objects_create wd st = (workout, st1)"
      by (cases "Workout_objects_create wd st")
    have "csv_row user overwrite_existing r acc st =
           (case csv_exercise_data r (fst workout) of
              Inl e \<Rightarrow> (Inl (csv_except r e), st1)
            | Inr None \<Rightarrow> (Inr (fst acc + 1, snd acc), st1)
            | Inr (Some exercise) \<Rightarrow>
                (Inr (fst acc + 1, snd acc + 1), Exercise_objects_create workout exercise st1))"
      using Inr Some p c by (intro csv_row_writes) simp_all
    with assms have "st' = st1"
      by (auto split: sum.splits option.splits)
    with c have "st' = snd (Workout_objects_create wd st)" by simp
    then show ?thesis by blast
  qed
qed

lemma return_counts_Inl:
  "return_counts out = (Inl e, st') \<longleftrightarrow> out = (Inl e, st')"
  by (auto simp: return_counts_def split: prod.splits sum.splits)

lemma return_counts_Inr:
  "out = (Inr acc, st') \<Longrightarrow>
     return_counts out = (Inr \<lparr>imported = fst acc, exercises = snd acc\<rparr>, st')"
  by (cases acc) (simp add: return_counts_def)

text \<open>
  C2, as the code has it. No transaction is opened, so a failed import rolls nothing
  back. When a CSV import fails, the payload has a failing row; the rows before it
  were imported to the end, with the store they leave; from that store the failing
  row raised the error and left either nothing or its own workout without the
  exercise; and that is the store the failed import leaves. A JSON import that fails
  leaves the store unchanged when the payload does not parse or has nothing to iterate
  over, and otherwise the store in which the failing workout document raised, after
  the documents before it were imported to the end. A text import that fails leaves
  the store in which the failing line raised, after the lines before it were processed
  to the end.
\<close>

theorem failed_import_keeps_earlier_writes:
  "(import_csv_data user rows overwrite_existing st = (Inl e, st') \<longrightarrow>
      (\<exists>before r after acc st1.
          rows = before @ r # after
          \<and> import_csv_data user before overwrite_existing st =
              (Inr \<lparr>imported = fst acc, exercises = snd acc\<rparr>, st1)
          \<and> csv_row user overwrite_existing r acc st1 = (Inl e, st')
          \<and> (st' = st1 \<or> (\<exists>w. st' = snd (Workout_objects_create w st1)))))
   \<and> (import_json_data user loaded overwrite_existing st = (Inl e, st') \<longrightarrow>
        st' = st
        \<or> (\<exists>data before workout_data after acc st1.
              loaded = Some data
              \<and> try_bind (json_get data ''workouts'' (JArr [])) json_iter =
                  Inr (before @ workout_data # after)
              \<and> import_json_data user (Some (JObj [(''workouts'', JArr before)]))
                 overwrite_existing st =
                (Inr \<lparr>imported = fst acc, exercises = snd acc\<rparr>, st1)
              \<and> json_workout user overwrite_existing workout_data acc st1 = (Inl e, st')))
   \<and> (import_text_data user file_content overwrite_existing st = (Inl e, st') \<longrightarrow>
        (\<exists>before l after acc st1.
            enumerate1 (py_split (CHR 0x0A) (py_strip file_content)) = before @ l # after
            \<and> for_each (text_line user overwrite_existing) before (None, 0, 0) st = (Inr acc, st1)
            \<and> text_line user overwrite_existing l acc st1 = (Inl e, st')))"
proof (intro conjI impI)
  assume "import_csv_data user rows overwrite_existing st = (Inl e, st')"
  then have "for_each (csv_row user overwrite_existing) rows (0, 0) st = (Inl e, st')"
    by (simp add: import_csv_data_def return_counts_Inl)
  from for_each_failure [OF this] obtain before r after acc st1 where
    parts: "rows = before @ r # after"
    and pre: "for_each (csv_row user overwrite_existing) before (0, 0) st = (Inr acc, st1)"
    and fail: "csv_row user overwrite_existing r acc st1 = (Inl e, st')"
    by blast
  have "import_csv_data user before overwrite_existing st =
          (Inr \<lparr>imported = fst acc, exercises = snd acc\<rparr>, st1)"
    unfolding import_csv_data_def using pre by (rule return_counts_Inr)
  moreover have "st' = st1 \<or> (\<exists>w. st' = snd (Workout_objects_create w st1))"
    using fail by (rule csv_row_failure_store)
  ultimately show "\<exists>before r after acc st1.
          rows = before @ r # after
          \<and> import_csv_data user before overwrite_existing st =
              (Inr \<lparr>imported = fst acc, exercises = snd acc\<rparr>, st1)
          \<and> csv_row user overwrite_existing r acc st1 = (Inl e, st')
          \<and> (st' = st1 \<or> (\<exists>w. st' = snd (Workout_objects_create w st1)))"
    using parts fail by blast
next
  assume failed: "import_json_data user loaded overwrite_existing st = (Inl e, st')"
  show "st' = st
        \<or> (\<exists>data before workout_data after acc st1.
              loaded = Some data
              \<and> try_bind (json_get data ''workouts'' (JArr [])) json_iter =
                  Inr (before @ workout_data # after)
              \<and> import_json_data user (Some (JObj [(''workouts'', JArr before)]))
                 overwrite_existing st =
                (Inr \<lparr>imported = fst acc, exercises = snd acc\<rparr>, st1)
              \<and> json_workout user overwrite_existing workout_data acc st1 = (Inl e, st'))"
  proof (cases loaded)
    case None
    with failed show ?thesis by (simp add: import_json_data_def)
  next
    case (Some data)
    show ?thesis
    proof (cases "try_bind (json_get data ''workouts'' (JArr [])) json_iter")
      case (Inl x)
      with Some failed show ?thesis by (simp add: import_json_data_def)
    next
      case (Inr workouts_data)
      with Some failed
      have "for_each (json_workout user overwrite_existing) workouts_data (0, 0) st = (Inl e, st')"
        by (simp add: import_json_data_def return_counts_Inl)
      from for_each_failure [OF this] obtain before workout_data after acc st1 where
        parts: "workouts_data = before @ workout_data # after" and
        pre: "for_each (json_workout user overwrite_existing) before (0, 0) st = (Inr acc, st1)"
        and fail: "json_workout user overwrite_existing workout_data acc st1 = (Inl e, st')"
        by blast
      have "import_json_data user (Some (JObj [(''workouts'', JArr before)])) overwrite_existing st =
              return_counts (for_each (json_workout user overwrite_existing) before (0, 0) st)"
        by (simp add: import_json_data_def json_get_def json_iter_def try_bind_def)
      also have "\<dots> = (Inr \<lparr>imported = fst acc, exercises = snd acc\<rparr>, st1)"
        using pre by (rule return_counts_Inr)
      finally show ?thesis using fail parts Some Inr by blast
    qed
  qed
next
  assume "import_text_data user file_content overwrite_existing st = (Inl e, st')"
  then have "for_each (text_line user overwrite_existing)
               (enumerate1 (py_split (CHR 0x0A) (py_strip file_content))) (None, 0, 0) st =
             (Inl e, st')"
    by (auto simp: import_text_data_def Let_def split: prod.splits sum.splits)
  then show "\<exists>before l after acc st1.
            enumerate1 (py_split (CHR 0x0A) (py_strip file_content)) = before @ l # after
            \<and> for_each (text_line user overwrite_existing) before (None, 0, 0) st = (Inr acc, st1)
            \<and> text_line user overwrite_existing l acc st1 = (Inl e, st')"
    by (rule for_each_failure)
qed

text \<open>
  The three implications at failing imports: each payload fails at its second item and
  the first item's workout stays in the store.
\<close>

lemma csv_failing_import:
  "import_csv_data 1 [run_row, bad_date_row] False empty_store =
     (Inl (ValidationError (Invalid_CSV_data bad_date_row ValueError)),
      \<lparr>fitness_workouts = [run_jan_2], fitness_exercises = []\<rparr>)"
  by code_simp

lemma json_failing_import:
  "import_json_data 1 (Some no_duration_doc) False empty_store =
     (Inl (ValidationError (Invalid_JSON_data
             (JObj [(''name'', JStr ''Evening Walk''), (''date'', JStr ''2024-01-02'')]) KeyError)),
      \<lparr>fitness_workouts = [run_jan_2], fitness_exercises = []\<rparr>)"
  by code_simp

lemma text_failing_import:
  "import_text_data 1 bad_second_line_text False empty_store =
     (Inl (ValidationError (Line_invalid_format 2 ValueError)),
      \<lparr>fitness_workouts = [run_jan_2], fitness_exercises = []\<rparr>)"
  by code_simp

theorem failed_import_keeps_earlier_writes_witness:
  "(\<exists>before r after acc st1.
       [run_row, bad_date_row] = before @ r # after
       \<and> import_csv_data 1 before False empty_store =
           (Inr \<lparr>imported = fst acc, exercises = snd acc\<rparr>, st1)
       \<and> csv_row 1 False r acc st1 =
           (Inl (ValidationError (Invalid_CSV_data bad_date_row ValueError)),
            \<lparr>fitness_workouts = [run_jan_2], fitness_exercises = []\<rparr>)
       \<and> (\<lparr>fitness_workouts = [run_jan_2], fitness_exercises = []\<rparr> = st1
            \<or> (\<exists>w. \<lparr>fitness_workouts = [run_jan_2], fitness_exercises = []\<rparr> =
                      snd (Workout_objects_create w st1))))
   \<and> (\<exists>data before workout_data after acc st1.
         Some no_duration_doc = Some data
         \<and> try_bind (json_get data ''workouts'' (JArr [])) json_iter =
             Inr (before @ workout_data # after)
         \<and> import_json_data 1 (Some (JObj [(''workouts'', JArr before)])) False empty_store =
           (Inr \<lparr>imported = fst acc, exercises = snd acc\<rparr>, st1)
         \<and> json_workout 1 False workout_data acc st1 =
             (Inl (ValidationError (Invalid_JSON_data
                (JObj [(''name'', JStr ''Evening Walk''), (''date'', JStr ''2024-01-02'')])
                KeyError)),
              \<lparr>fitness_workouts = [run_jan_2], fitness_exercises = []\<rparr>))
   \<and> (\<exists>before l after acc st1.
         enumerate1 (py_split (CHR 0x0A) (py_strip bad_second_line_text)) = before @ l # after
         \<and> for_each (text_line 1 False) before (None, 0, 0) empty_store = (Inr acc, st1)
         \<and> text_line 1 False l acc st1 =
             (Inl (ValidationError (Line_invalid_format 2 ValueError)),
              \<lparr>fitness_workouts = [run_jan_2], fitness_exercises = []\<rparr>))"
proof (intro conjI)
  show "\<exists>before r after acc st1.
       [run_row, bad_date_row] = before @ r # after
       \<and> import_csv_data 1 before False empty_store =
           (Inr \<lparr>imported = fst acc, exercises = snd acc\<rparr>, st1)
       \<and> csv_row 1 False r acc st1 =
           (Inl (ValidationError (Invalid_CSV_data bad_date_row ValueError)),
            \<lparr>fitness_workouts = [run_jan_2], fitness_exercises = []\<rparr>)
       \<and> (\<lparr>fitness_workouts = [run_jan_2], fitness_exercises = []\<rparr> = st1
            \<or> (\<exists>w. \<lparr>fitness_workouts = [run_jan_2], fitness_exercises = []\<rparr> =
                      snd (Workout_objects_create w st1)))"
    by (rule failed_import_keeps_earlier_writes
          [THEN conjunct1, THEN mp, OF csv_failing_import])
next
  have changed: "\<lparr>fitness_workouts = [run_jan_2], fitness_exercises = []\<rparr> \<noteq> empty_store"
    by (simp add: empty_store_def)
  have "\<lparr>fitness_workouts = [run_jan_2], fitness_exercises = []\<rparr> = empty_store
        \<or> (\<exists>data before workout_data after acc st1.
         Some no_duration_doc = Some data
         \<and> try_bind (json_get data ''workouts'' (JArr [])) json_iter =
             Inr (before @ workout_data # after)
         \<and> import_json_data 1 (Some (JObj [(''workouts'', JArr before)])) False empty_store =
           (Inr \<lparr>imported = fst acc, exercises = snd acc\<rparr>, st1)
         \<and> json_workout 1 False workout_data acc st1 =
             (Inl (ValidationError (Invalid_JSON_data
                (JObj [(''name'', JStr ''Evening Walk''), (''date'', JStr ''2024-01-02'')])
                KeyError)),
              \<lparr>fitness_workouts = [run_jan_2], fitness_exercises = []\<rparr>))"
    by (rule failed_import_keeps_earlier_writes
          [THEN conjunct2, THEN conjunct1, THEN mp, OF json_failing_import])
  then show "\<exists>data before workout_data after acc st1.
         Some no_duration_doc = Some data
         \<and> try_bind (json_get data ''workouts'' (JArr [])) json_iter =
             Inr (before @ workout_data # after)
         \<and> import_json_data 1 (Some (JObj [(''workouts'', JArr before)])) False empty_store =
           (Inr \<lparr>imported = fst acc, exercises = snd acc\<rparr>, st1)
         \<and> json_workout 1 False workout_data acc st1 =
             (Inl (ValidationError (Invalid_JSON_data
                (JObj [(''name'', JStr ''Evening Walk''), (''date'', JStr ''2024-01-02'')])
                KeyError)),
              \<lparr>fitness_workouts = [run_jan_2], fitness_exercises = []\<rparr>)"
  proof
    assume "\<lparr>fitness_workouts = [run_jan_2], fitness_exercises = []\<rparr> = empty_store"
    with changed show ?thesis by simp
  next
    assume "\<exists>data before workout_data after acc st1.
         Some no_duration_doc = Some data
         \<and> try_bind (json_get data ''workouts'' (JArr [])) json_iter =
             Inr (before @ workout_data # after)
         \<and> import_json_data 1 (Some (JObj [(''workouts'', JArr before)])) False empty_store =
           (Inr \<lparr>imported = fst acc, exercises = snd acc\<rparr>, st1)
         \<and> json_workout 1 False workout_data acc st1 =
             (Inl (ValidationError (Invalid_JSON_data
                (JObj [(''name'', JStr ''Evening Walk''), (''date'', JStr ''2024-01-02'')])
                KeyError)),
              \<lparr>fitness_workouts = [run_jan_2], fitness_exercises = []\<rparr>)"
    then show ?thesis .
  qed
next
  show "\<exists>before l after acc st1.
         enumerate1 (py_split (CHR 0x0A) (py_strip bad_second_line_text)) = before @ l # after
         \<and> for_each (text_line 1 False) before (None, 0, 0) empty_store = (Inr acc, st1)
         \<and> text_line 1 False l acc st1 =
             (Inl (ValidationError (Line_invalid_format 2 ValueError)),
              \<lparr>fitness_workouts = [run_jan_2], fitness_exercises = []\<rparr>)"
    by (rule failed_import_keeps_earlier_writes
          [THEN conjunct2, THEN conjunct2, THEN mp, OF text_failing_import])
qed

text \<open>
  The claim as stated fails at these inputs: the CSV import fails with a validation
  error at its second row, and the store is not the one it started from. A single row
  whose exercise columns do not parse leaves its workout without the exercise.
\<close>

theorem failed_import_counterexample:
  "import_csv_data 1 [run_row, bad_date_row] False empty_store =
     (Inl (ValidationError (Invalid_CSV_data bad_date_row ValueError)),
      \<lparr>fitness_workouts = [run_jan_2], fitness_exercises = []\<rparr>)
   \<and> \<lparr>fitness_workouts = [run_jan_2], fitness_exercises = []\<rparr> \<noteq> empty_store
   \<and> import_csv_data 1 [bad_sets_row] False empty_store =
     (Inl (ValidationError (Invalid_CSV_data bad_sets_row ValueError)),
      \<lparr>fitness_workouts = [leg_day], fitness_exercises = []\<rparr>)
   \<and> import_json_data 1 (Some no_duration_doc) False empty_store =
     (Inl (ValidationError (Invalid_JSON_data
             (JObj [(''name'', JStr ''Evening Walk''), (''date'', JStr ''2024-01-02'')]) KeyError)),
      \<lparr>fitness_workouts = [run_jan_2], fitness_exercises = []\<rparr>)"
  by code_simp

end
